theory Spec2Isabelle
  imports Main "HOL-Library.Word" "HOL-Library.AList"
begin

unbundle bit_operations_syntax

section \<open>Go values used by the in-memory backend\<close>

text \<open>
  A Go \<^verbatim>\<open>string\<close> and a \<^verbatim>\<open>[]byte\<close> are byte sequences: paths are \<^typ>\<open>string\<close>
  (a list of 8-bit characters), file contents are lists of 8-bit words.
  \<^verbatim>\<open>fs.FileMode\<close> is a \<^verbatim>\<open>uint32\<close> whose top bit is the directory flag.
  The open flags are Go \<^verbatim>\<open>int\<close>s that are only ever combined bitwise; their values are
  those of \<^verbatim>\<open>package syscall\<close> on linux (on every platform \<^verbatim>\<open>O_RDONLY\<close> is 0,
  \<^verbatim>\<open>O_WRONLY\<close> is 1 and \<^verbatim>\<open>O_RDWR\<close> is 2).
\<close>

type_synonym byte = "8 word"
type_synonym FileMode = "32 word"
type_synonym addr = nat

definition ModeDir :: FileMode where
  "ModeDir = 0x80000000"

definition IsDir :: "FileMode \<Rightarrow> bool" where
  "IsDir m = (m AND ModeDir \<noteq> 0)"

definition O_RDONLY :: int where "O_RDONLY = 0"
definition O_WRONLY :: int where "O_WRONLY = 1"
definition O_RDWR :: int where "O_RDWR = 2"
definition O_CREATE :: int where "O_CREATE = 0x40"
definition O_TRUNC :: int where "O_TRUNC = 0x200"
definition O_APPEND :: int where "O_APPEND = 0x400"

definition SeekStart :: int where "SeekStart = 0"
definition SeekCurrent :: int where "SeekCurrent = 1"
definition SeekEnd :: int where "SeekEnd = 2"

text \<open>
  Errors are values. \<open>PathError op path err\<close> is \<^verbatim>\<open>&fs.PathError{Op, Path, Err}\<close>,
  \<open>LinkError op old new err\<close> is \<^verbatim>\<open>&os.LinkError{Op, Old, New, Err}\<close>, \<open>ErrorString\<close> is the
  value of \<^verbatim>\<open>errors.New\<close>; the other constructors are the sentinel errors of
  \<^verbatim>\<open>io\<close>, \<^verbatim>\<open>io/fs\<close> and \<^verbatim>\<open>syscall\<close> that the code names.
\<close>

datatype error =
    ErrNotExist | ErrInvalid | EOF
  | EISDIR | EEXIST | ENOENT | ENOTDIR | ENOTEMPTY | EBADF | EINVAL
  | ErrorString string
  | PathError string string error
  | LinkError string string string error

text \<open>
  \<^verbatim>\<open>errors.Is\<close>: the error itself or one reached by unwrapping; the errno
  \<^verbatim>\<open>ENOENT\<close> also counts as \<^verbatim>\<open>fs.ErrNotExist\<close>.
\<close>

fun errors_Is :: "error \<Rightarrow> error \<Rightarrow> bool" where
  "errors_Is (PathError op p e) target = (PathError op p e = target \<or> errors_Is e target)"
| "errors_Is (LinkError op p q e) target = (LinkError op p q e = target \<or> errors_Is e target)"
| "errors_Is e target = (e = target \<or> (e = ENOENT \<and> target = ErrNotExist))"

text \<open>
  A call either returns or panics (a nil dereference, a slice bound out of range).
\<close>

datatype 'a result = Return 'a | Panic

text \<open>
  Go's \<^verbatim>\<open>int\<close> and \<^verbatim>\<open>int64\<close> are 64-bit two's complement: a sum is wrapped into
  their range.
\<close>

definition wrap64 :: "int \<Rightarrow> int" where
  "wrap64 x = (x + 2 ^ 63) mod 2 ^ 64 - 2 ^ 63"

section \<open>Strings and paths (packages strings, path, unicode/utf8, io/fs)\<close>

definition HasPrefix :: "string \<Rightarrow> string \<Rightarrow> bool" where
  "HasPrefix s p = (length p \<le> length s \<and> take (length p) s = p)"

text \<open>
  \<^verbatim>\<open>strings.Replace(s, old, new, 1)\<close>: the first occurrence of \<open>old\<close> in \<open>s\<close> is
  replaced; an empty \<open>old\<close> matches at the beginning.
\<close>

fun Replace1 :: "string \<Rightarrow> string \<Rightarrow> string \<Rightarrow> string" where
  "Replace1 [] old new = (if old = [] then new else [])"
| "Replace1 (c # cs) old new =
     (if HasPrefix (c # cs) old then new @ drop (length old) (c # cs)
      else c # Replace1 cs old new)"

text \<open>
  \<^verbatim>\<open>path.Split\<close> cuts after the last slash: the directory part keeps that slash, and
  is empty when the path has no slash.
\<close>

definition LastIndex_slash :: "string \<Rightarrow> int" where
  "LastIndex_slash p =
     (if CHR ''/'' \<in> set p
      then int (length p) - 1 - int (length (takeWhile (\<lambda>c. c \<noteq> CHR ''/'') (rev p)))
      else - 1)"

definition path_Split :: "string \<Rightarrow> string \<times> string" where
  "path_Split p = (let i = LastIndex_slash p in (take (nat (i + 1)) p, drop (nat (i + 1)) p))"

text \<open>
  \<^verbatim>\<open>utf8.ValidString\<close>: every byte sequence of the string is a well-formed UTF-8
  encoding (no overlong forms, no surrogates, nothing above U+10FFFF).
\<close>

definition byte_in :: "nat \<Rightarrow> nat \<Rightarrow> char \<Rightarrow> bool" where
  "byte_in lo hi c = (lo \<le> (of_char c :: nat) \<and> (of_char c :: nat) \<le> hi)"

fun ValidString :: "string \<Rightarrow> bool" where
  "ValidString [] = True"
| "ValidString (c # cs) =
     (if byte_in 0x00 0x7F c then ValidString cs
      else if byte_in 0xC2 0xDF c then
        1 \<le> length cs \<and> byte_in 0x80 0xBF (cs ! 0) \<and> ValidString (drop 1 cs)
      else if byte_in 0xE0 0xEF c then
        2 \<le> length cs
        \<and> byte_in (if byte_in 0xE0 0xE0 c then 0xA0 else 0x80)
                   (if byte_in 0xED 0xED c then 0x9F else 0xBF) (cs ! 0)
        \<and> byte_in 0x80 0xBF (cs ! 1) \<and> ValidString (drop 2 cs)
      else if byte_in 0xF0 0xF4 c then
        3 \<le> length cs
        \<and> byte_in (if byte_in 0xF0 0xF0 c then 0x90 else 0x80)
                   (if byte_in 0xF4 0xF4 c then 0x8F else 0xBF) (cs ! 0)
        \<and> byte_in 0x80 0xBF (cs ! 1) \<and> byte_in 0x80 0xBF (cs ! 2) \<and> ValidString (drop 3 cs)
      else False)"

text \<open>
  \<^verbatim>\<open>fs.ValidPath\<close>: valid UTF-8, and either the root \<^verbatim>\<open>"."\<close> or slash-separated
  elements none of which is empty, \<^verbatim>\<open>"."\<close> or \<^verbatim>\<open>".."\<close>. The scan of the elements
  carries the element read so far.
\<close>

definition bad_elem :: "string \<Rightarrow> bool" where
  "bad_elem elem = (elem = [] \<or> elem = ''.'' \<or> elem = ''..'')"

fun valid_elems :: "string \<Rightarrow> string \<Rightarrow> bool" where
  "valid_elems elem [] = (\<not> bad_elem elem)"
| "valid_elems elem (c # cs) =
     (if c = CHR ''/'' then \<not> bad_elem elem \<and> valid_elems [] cs
      else valid_elems (elem @ [c]) cs)"

definition ValidPath :: "string \<Rightarrow> bool" where
  "ValidPath name = (ValidString name \<and> (name = ''.'' \<or> valid_elems [] name))"

section \<open>The path table: fstest.MapFS\<close>

text \<open>
  \<^verbatim>\<open>fstest.MapFS\<close> is a Go map from path to \<^verbatim>\<open>*MapFile\<close>. The records live in a store
  and the table holds their addresses, so that a handle's back-reference and the table
  share one record; a table value may be the nil pointer (\<open>None\<close>). \<open>fresh\<close> is the
  address the next allocation returns. Symbolic links are not part of the model. The table itself is an association list read
  through \<^const>\<open>map_of\<close>; where the code ranges over the map, the order in which Go produces
  the keys is a parameter of the model.
\<close>

record MapFile =
  Data :: "byte list"
  Mode :: FileMode
  ModTime :: int

record mapFs =
  store :: "addr \<Rightarrow> MapFile"
  fresh :: addr
  MapFS :: "(string \<times> addr option) list"

text \<open>\<^verbatim>\<open>fsys[name]\<close>: the nil pointer when the key is absent.\<close>

definition index_map :: "(string \<times> addr option) list \<Rightarrow> string \<Rightarrow> addr option" where
  "index_map m name = (case map_of m name of None \<Rightarrow> None | Some p \<Rightarrow> p)"

text \<open>\<^verbatim>\<open>_, ok := fsys[name]\<close>.\<close>

definition has_key :: "(string \<times> addr option) list \<Rightarrow> string \<Rightarrow> bool" where
  "has_key m name = (map_of m name \<noteq> None)"

text \<open>\<^verbatim>\<open>&fstest.MapFile{...}\<close> allocates a record.\<close>

definition new_MapFile :: "mapFs \<Rightarrow> MapFile \<Rightarrow> addr \<times> mapFs" where
  "new_MapFile f r = (fresh f, f\<lparr>store := (store f)(fresh f := r), fresh := Suc (fresh f)\<rparr>)"

text \<open>
  What \<^verbatim>\<open>MapFS.Open\<close> returns: an ordinary file on a record, or a directory (on its
  record, or on none when the directory is only implied by the paths below it) with the
  names of its entries. The entries are sorted by name in the source; nothing in this
  package looks at more than their number, and the model leaves them unsorted.
\<close>

datatype fs_File = openMapFile string addr | mapDir string "addr option" "string list"

definition slash_free :: "string \<Rightarrow> bool" where
  "slash_free s = (CHR ''/'' \<notin> set s)"

definition first_elem :: "string \<Rightarrow> string" where
  "first_elem s = takeWhile (\<lambda>c. c \<noteq> CHR ''/'') s"

text \<open>
  The keys below \<open>name\<close>, with the prefix \<open>name/\<close> cut off: the loop of \<^verbatim>\<open>Open\<close> over
  the map for a directory other than the root.
\<close>

definition below :: "(string \<times> addr option) list \<Rightarrow> string \<Rightarrow> string list" where
  "below m name =
     map (drop (length (name @ ''/'')))
       (filter (\<lambda>fname. HasPrefix fname (name @ ''/'')) (map fst m))"

definition dir_list :: "(string \<times> addr option) list \<Rightarrow> string \<Rightarrow> string list" where
  "dir_list m name =
     (if name = ''.'' then filter (\<lambda>fname. slash_free fname \<and> fname \<noteq> ''.'') (map fst m)
      else filter slash_free (below m name))"

definition dir_need :: "(string \<times> addr option) list \<Rightarrow> string \<Rightarrow> string list" where
  "dir_need m name =
     (if name = ''.'' then map first_elem (filter (\<lambda>fname. \<not> slash_free fname) (map fst m))
      else map first_elem (filter (\<lambda>felem. \<not> slash_free felem) (below m name)))"

definition open_dir :: "mapFs \<Rightarrow> string \<Rightarrow> addr option \<Rightarrow> error + fs_File" where
  "open_dir f name file =
     (let list = dir_list (MapFS f) name; need = dir_need (MapFS f) name in
      if name \<noteq> ''.'' \<and> file = None \<and> list = [] \<and> need = []
      then Inl (PathError ''open'' name ErrNotExist)
      else Inr (mapDir name file (list @ remdups [n \<leftarrow> need. n \<notin> set list])))"

definition Open :: "mapFs \<Rightarrow> string \<Rightarrow> error + fs_File" where
  "Open f name =
     (if \<not> ValidPath name then Inl (PathError ''open'' name ErrNotExist)
      else case index_map (MapFS f) name of
             Some a \<Rightarrow>
               if Mode (store f a) AND ModeDir = 0 then Inr (openMapFile name a)
               else open_dir f name (Some a)
           | None \<Rightarrow> open_dir f name None)"

text \<open>
  \<^verbatim>\<open>file.Stat()\<close> on either kind of file never fails; an implied directory reports
  mode \<^verbatim>\<open>fs.ModeDir | 0555\<close> (octal 555 is hexadecimal 16D). The base name is left out of the info.
\<close>

record FileInfo =
  info_Size :: int
  info_Mode :: FileMode
  info_ModTime :: int
  info_IsDir :: bool

definition mapFileInfo :: "MapFile \<Rightarrow> FileInfo" where
  "mapFileInfo r =
     \<lparr>info_Size = int (length (Data r)), info_Mode = Mode r, info_ModTime = ModTime r,
      info_IsDir = (Mode r AND ModeDir \<noteq> 0)\<rparr>"

definition implied_dir :: MapFile where
  "implied_dir = \<lparr>Data = [], Mode = ModeDir OR 0x16D, ModTime = 0\<rparr>"

fun file_Stat :: "mapFs \<Rightarrow> fs_File \<Rightarrow> FileInfo" where
  "file_Stat f (openMapFile name a) = mapFileInfo (store f a)"
| "file_Stat f (mapDir name (Some a) entries) = mapFileInfo (store f a)"
| "file_Stat f (mapDir name None entries) = mapFileInfo implied_dir"

text \<open>\<^verbatim>\<open>io.ReadAll(file)\<close>, its error dropped: a directory cannot be read.\<close>

fun ReadAll :: "mapFs \<Rightarrow> fs_File \<Rightarrow> byte list" where
  "ReadAll f (openMapFile name a) = Data (store f a)"
| "ReadAll f (mapDir name p entries) = []"

text \<open>
  \<^verbatim>\<open>fs.ReadDir(f, name)\<close>, its error dropped: the entries of a directory, nothing for
  an ordinary file or a path that does not open.
\<close>

definition ReadDir :: "mapFs \<Rightarrow> string \<Rightarrow> string list" where
  "ReadDir f name =
     (case Open f name of
        Inl err \<Rightarrow> []
      | Inr (openMapFile n a) \<Rightarrow> []
      | Inr (mapDir n p entries) \<Rightarrow> entries)"

section \<open>Open file handles: mapFsFile over a bytes.Reader\<close>

text \<open>
  \<^verbatim>\<open>bytes.Reader\<close> is a byte slice \<open>rd_s\<close> and a read position \<open>rd_i\<close>. \<open>Reader_Read r n\<close>
  is \<^verbatim>\<open>r.Read(b)\<close> for a buffer of \<open>n\<close> bytes: it gives the bytes copied into the
  buffer (their number is the count Go returns) and the error.
\<close>

record Reader =
  rd_s :: "byte list"
  rd_i :: int

definition NewReader :: "byte list \<Rightarrow> Reader" where
  "NewReader b = \<lparr>rd_s = b, rd_i = 0\<rparr>"

definition Reader_Reset :: "Reader \<Rightarrow> byte list \<Rightarrow> Reader" where
  "Reader_Reset r b = \<lparr>rd_s = b, rd_i = 0\<rparr>"

definition Reader_Size :: "Reader \<Rightarrow> int" where
  "Reader_Size r = int (length (rd_s r))"

definition Reader_Read :: "Reader \<Rightarrow> nat \<Rightarrow> (byte list \<times> error option) \<times> Reader" where
  "Reader_Read r n =
     (if rd_i r \<ge> int (length (rd_s r)) then (([], Some EOF), r)
      else let out = take n (drop (nat (rd_i r)) (rd_s r))
           in ((out, None), r\<lparr>rd_i := rd_i r + int (length out)\<rparr>))"

definition Reader_ReadAt :: "Reader \<Rightarrow> nat \<Rightarrow> int \<Rightarrow> byte list \<times> error option" where
  "Reader_ReadAt r n off =
     (if off < 0 then ([], Some (ErrorString ''bytes.Reader.ReadAt: negative offset''))
      else if off \<ge> int (length (rd_s r)) then ([], Some EOF)
      else let out = take n (drop (nat off) (rd_s r))
           in (out, if length out < n then Some EOF else None))"

definition Reader_Seek :: "Reader \<Rightarrow> int \<Rightarrow> int \<Rightarrow> (int \<times> error option) \<times> Reader" where
  "Reader_Seek r offset whence =
     (if whence \<noteq> SeekStart \<and> whence \<noteq> SeekCurrent \<and> whence \<noteq> SeekEnd
      then ((0, Some (ErrorString ''bytes.Reader.Seek: invalid whence'')), r)
      else let newpos = (if whence = SeekStart then offset
                      else if whence = SeekCurrent then wrap64 (rd_i r + offset)
                      else wrap64 (int (length (rd_s r)) + offset))
           in if newpos < 0 then ((0, Some (ErrorString ''bytes.Reader.Seek: negative position'')), r)
              else ((newpos, None), r\<lparr>rd_i := newpos\<rparr>))"

text \<open>
  The handle: the file \<^verbatim>\<open>MapFS.Open\<close> returned, the back-reference \<open>mfile\<close> to the
  record in the table (nil for an implied directory), the path, the open flags, the
  mode read at open time and the private reader.
\<close>

record mapFsFile =
  fsFile :: fs_File
  mfile :: "addr option"
  fname :: string
  fflag :: int
  fperm :: FileMode
  reader :: Reader

definition Name :: "mapFsFile \<Rightarrow> string" where
  "Name h = fname h"

definition Read :: "mapFsFile \<Rightarrow> nat \<Rightarrow> (byte list \<times> error option) \<times> mapFsFile" where
  "Read h n =
     (if IsDir (fperm h) then (([], Some (PathError ''read'' (fname h) EISDIR)), h)
      else if fflag h AND (O_RDONLY OR O_RDWR) = 0 \<and> fflag h \<noteq> 0
        then (([], Some (PathError ''read'' (fname h) EBADF)), h)
      else let (res, r) = Reader_Read (reader h) n in (res, h\<lparr>reader := r\<rparr>))"

definition ReadAt :: "mapFsFile \<Rightarrow> nat \<Rightarrow> int \<Rightarrow> byte list \<times> error option" where
  "ReadAt h n off =
     (if IsDir (fperm h) then ([], Some (PathError ''read'' (fname h) EISDIR))
      else if fflag h AND (O_RDONLY OR O_RDWR) = 0 \<and> fflag h \<noteq> 0
        then ([], Some (PathError ''read'' (fname h) EBADF))
      else if off < 0 \<or> off > Reader_Size (reader h)
        then ([], Some (PathError ''read'' (fname h) ErrInvalid))
      else Reader_ReadAt (reader h) n off)"

definition Seek :: "mapFsFile \<Rightarrow> int \<Rightarrow> int \<Rightarrow> (int \<times> error option) \<times> mapFsFile" where
  "Seek h offset whence =
     (if IsDir (fperm h) then ((0, Some (PathError ''seek'' (fname h) EISDIR)), h)
      else case Reader_Seek (reader h) offset whence of
             ((n, None), r) \<Rightarrow> ((n, None), h\<lparr>reader := r\<rparr>)
           | ((n, Some err), r) \<Rightarrow> ((n, Some (PathError ''seek'' (fname h) err)), h\<lparr>reader := r\<rparr>))"

text \<open>
  \<open>reset\<close> updates the reader's bytes from the record while maintaining the cursor.
\<close>

definition reset :: "mapFs \<Rightarrow> mapFsFile \<Rightarrow> mapFsFile result" where
  "reset st h =
     (let ((pos, err), r1) = Reader_Seek (reader h) 0 SeekCurrent in
      case mfile h of
        None \<Rightarrow> Panic
      | Some a \<Rightarrow>
          let r2 = Reader_Reset r1 (Data (store st a));
              (res, r3) = Reader_Seek r2 pos SeekStart
          in Return (h\<lparr>reader := r3\<rparr>))"

text \<open>\<^verbatim>\<open>f.mfile.Data = d\<close> through the back-reference.\<close>

definition set_Data :: "mapFs \<Rightarrow> addr \<Rightarrow> byte list \<Rightarrow> mapFs" where
  "set_Data st a d = st\<lparr>store := (store st)(a := (store st a)\<lparr>Data := d\<rparr>)\<rparr>"

text \<open>
  \<^verbatim>\<open>copy(d[pos:], b)\<close> for \<open>pos \<le> length d\<close>: the bytes that fit overwrite \<open>d\<close> from
  \<open>pos\<close> on; the result is the new \<open>d\<close> and the number of bytes copied.
\<close>

definition copy_at :: "byte list \<Rightarrow> nat \<Rightarrow> byte list \<Rightarrow> byte list \<times> nat" where
  "copy_at d pos b =
     (let n = min (length d - pos) (length b)
      in (take pos d @ take n b @ drop (pos + n) d, n))"

text \<open>
  \<^verbatim>\<open>if end > len(d) { d = append(d, make([]byte, end-len(d))...) }\<close>: expand the slice
  with zero bytes if necessary.
\<close>

definition grow :: "byte list \<Rightarrow> int \<Rightarrow> byte list" where
  "grow d endpos =
     (if endpos > int (length d) then d @ replicate (nat (endpos - int (length d))) 0 else d)"

text \<open>
  The part \<open>Write\<close> and \<open>WriteAt\<close> share: expand the record's data up to the end of the
  write, copy \<open>b\<close> in at \<open>pos\<close> (slicing at \<open>pos\<close> panics when \<open>pos\<close> is beyond the data),
  resynchronise the reader. The end is the sum of two Go \<^verbatim>\<open>int\<close>s.
\<close>

definition write_at :: "mapFs \<Rightarrow> mapFsFile \<Rightarrow> int \<Rightarrow> byte list \<Rightarrow> (nat \<times> mapFs \<times> mapFsFile) result" where
  "write_at st h pos b =
     (case mfile h of
        None \<Rightarrow> Panic
      | Some a \<Rightarrow>
          let d1 = grow (Data (store st a)) (wrap64 (pos + int (length b)))
          in if pos < 0 \<or> pos > int (length d1) then Panic
             else let (d2, n) = copy_at d1 (nat pos) b;
                      st' = set_Data st a d2
                  in case reset st' h of
                       Panic \<Rightarrow> Panic
                     | Return h' \<Rightarrow> Return (n, st', h'))"

definition Write :: "mapFs \<Rightarrow> mapFsFile \<Rightarrow> byte list \<Rightarrow> ((nat \<times> error option) \<times> mapFs \<times> mapFsFile) result" where
  "Write st h b =
     (if IsDir (fperm h) \<or> fflag h AND (O_WRONLY OR O_RDWR) = 0
      then Return ((0, Some (PathError ''write'' (fname h) EBADF)), st, h)
      else let ((pos, err), h0) = Seek h 0 SeekCurrent in
           case write_at st h0 pos b of
             Panic \<Rightarrow> Panic
           | Return (n, st', h1) \<Rightarrow>
               let (res, r) = Reader_Seek (reader h1) (int n) SeekCurrent
               in Return ((n, None), st', h1\<lparr>reader := r\<rparr>))"

definition WriteAt :: "mapFs \<Rightarrow> mapFsFile \<Rightarrow> byte list \<Rightarrow> int \<Rightarrow> ((nat \<times> error option) \<times> mapFs \<times> mapFsFile) result" where
  "WriteAt st h b off =
     (if fflag h AND O_APPEND \<noteq> 0
      then Return ((0, Some (ErrorString ''invalid use of WriteAt on file opened with O_APPEND'')), st, h)
      else if IsDir (fperm h) \<or> fflag h AND (O_WRONLY OR O_RDWR) = 0
      then Return ((0, Some (PathError ''write'' (fname h) EBADF)), st, h)
      else if off < 0
      then Return ((0, Some (PathError ''writeat'' (fname h) (ErrorString ''negative offset''))), st, h)
      else case write_at st h off b of
             Panic \<Rightarrow> Panic
           | Return (n, st', h1) \<Rightarrow> Return ((n, None), st', h1))"

definition Truncate :: "mapFs \<Rightarrow> mapFsFile \<Rightarrow> int \<Rightarrow> (error option \<times> mapFs \<times> mapFsFile) result" where
  "Truncate st h sz =
     (if IsDir (fperm h) \<or> fflag h AND (O_WRONLY OR O_RDWR) = 0
      then Return (Some (PathError ''truncate'' (fname h) EINVAL), st, h)
      else if sz < 0 then Return (None, st, h)
      else case mfile h of
             None \<Rightarrow> Panic
           | Some a \<Rightarrow>
               let d = Data (store st a);
                   curr = int (length d);
                   d' = (if sz > curr then d @ replicate (nat (sz - curr)) 0
                         else take (nat sz) d);
                   st' = set_Data st a d'
               in case reset st' h of
                    Panic \<Rightarrow> Panic
                  | Return h' \<Rightarrow> Return (None, st', h'))"

section \<open>The filesystem operations of mapFs\<close>

definition Stat :: "mapFs \<Rightarrow> string \<Rightarrow> error + FileInfo" where
  "Stat f name =
     (case Open f name of
        Inl err \<Rightarrow> Inl (PathError ''stat'' name err)
      | Inr file \<Rightarrow> Inr (file_Stat f file))"

text \<open>\<^verbatim>\<open>f.MapFS[name] = &fstest.MapFile{...}\<close>.\<close>

definition put_new :: "mapFs \<Rightarrow> string \<Rightarrow> MapFile \<Rightarrow> mapFs" where
  "put_new f name r =
     (let (a, f') = new_MapFile f r in f'\<lparr>MapFS := AList.update name (Some a) (MapFS f')\<rparr>)"

text \<open>
  The first lines of \<open>OpenFile\<close>: open the file, and create it first if it does not
  exist and \<^verbatim>\<open>O_CREATE\<close> is present (\<open>perm\<close> is used only then).
\<close>

definition open_or_create :: "mapFs \<Rightarrow> string \<Rightarrow> int \<Rightarrow> FileMode \<Rightarrow> (error + fs_File) \<times> mapFs" where
  "open_or_create f name flg prm =
     (case Open f name of
        Inl err \<Rightarrow>
          if errors_Is err ErrNotExist \<and> flg AND O_CREATE \<noteq> 0
          then (let f1 = put_new f name \<lparr>Data = [], Mode = prm, ModTime = 0\<rparr>
                in (Open f1 name, f1))
          else (Inl err, f)
      | Inr file \<Rightarrow> (Inr file, f))"

text \<open>The handle as \<open>OpenFile\<close> builds it, before truncation and the seek to the end.\<close>

definition new_handle :: "mapFs \<Rightarrow> string \<Rightarrow> int \<Rightarrow> fs_File \<Rightarrow> mapFsFile" where
  "new_handle f name flg file =
     \<lparr>fsFile = file, mfile = index_map (MapFS f) name, fname = name, fflag = flg,
      fperm = info_Mode (file_Stat f file), reader = NewReader (ReadAll f file)\<rparr>"

definition OpenFile :: "mapFs \<Rightarrow> string \<Rightarrow> int \<Rightarrow> FileMode \<Rightarrow> ((error + mapFsFile) \<times> mapFs) result" where
  "OpenFile f name flg prm =
     (case open_or_create f name flg prm of
        (Inl err, f1) \<Rightarrow> Return (Inl err, f1)
      | (Inr file, f1) \<Rightarrow>
          if info_IsDir (file_Stat f1 file) \<and> flg AND (O_WRONLY OR O_RDWR) \<noteq> 0
          then Return (Inl (PathError ''open'' name EISDIR), f1)
          else
            case (if flg AND O_TRUNC \<noteq> 0 then Truncate f1 (new_handle f1 name flg file) 0
                  else Return (None, f1, new_handle f1 name flg file)) of
              Panic \<Rightarrow> Panic
            | Return (err, f2, h2) \<Rightarrow>
                Return (Inr (if flg AND O_APPEND \<noteq> 0 then snd (Seek h2 0 SeekEnd) else h2), f2))"

text \<open>
  Ranging over a Go map while the body changes it: the keys are produced in an order
  the runtime chooses. An entry removed before it is reached is not produced; an entry
  created during the iteration may be produced or skipped. The loops below take the
  sequence \<open>ks\<close> of keys the runtime offers and run the body on each one that is in the
  map at that moment. \<open>range_order body pending ks m\<close> says that \<open>ks\<close> is a sequence the
  language allows for the map \<open>m\<close>: no key twice, each key in the map when it is
  produced, and every entry of the map the loop started with (\<open>pending\<close>) produced
  unless it was removed first.
\<close>

type_synonym table = "(string \<times> addr option) list"

fun range_order :: "(table \<Rightarrow> string \<Rightarrow> table) \<Rightarrow> string list \<Rightarrow> string list \<Rightarrow> table \<Rightarrow> bool" where
  "range_order body pending [] m = (pending = [])"
| "range_order body pending (k # ks) m =
     (has_key m k \<and> k \<notin> set ks
      \<and> range_order body [p \<leftarrow> pending. p \<noteq> k \<and> has_key (body m k) p] ks (body m k))"

text \<open>The body of the loop in \<open>Rename\<close>, and the loop with its \<open>movepath\<close> variable.\<close>

definition rename_entry :: "string \<Rightarrow> string \<Rightarrow> table \<Rightarrow> string \<Rightarrow> table" where
  "rename_entry oldpath newpath m name =
     (if HasPrefix name oldpath
      then AList.delete name (AList.update (Replace1 name oldpath newpath) (index_map m name) m)
      else m)"

fun rename_range :: "string \<Rightarrow> string \<Rightarrow> string list \<Rightarrow> table \<times> bool \<Rightarrow> table \<times> bool" where
  "rename_range oldpath newpath [] (m, movepath) = (m, movepath)"
| "rename_range oldpath newpath (name # ks) (m, movepath) =
     rename_range oldpath newpath ks
       (if has_key m name
        then (rename_entry oldpath newpath m name, movepath \<and> \<not> HasPrefix name oldpath)
        else (m, movepath))"

definition Rename :: "string list \<Rightarrow> mapFs \<Rightarrow> string \<Rightarrow> string \<Rightarrow> error option \<times> mapFs" where
  "Rename ks f oldpath newpath =
     (case Stat f oldpath of
        Inl err \<Rightarrow>
          (Some (LinkError ''rename'' oldpath newpath
                   (case err of PathError op p e \<Rightarrow> e | _ \<Rightarrow> err)), f)
      | Inr oldinfo \<Rightarrow>
          if oldpath = newpath then (Some (LinkError ''rename'' oldpath newpath EEXIST), f)
          else if (case Stat f newpath of Inl err \<Rightarrow> False | Inr newinfo \<Rightarrow> info_IsDir newinfo)
          then (Some (LinkError ''rename'' oldpath newpath EEXIST), f)
          else
            let dir = fst (path_Split newpath);
                direrr = (if dir \<noteq> [] then
                            (case Stat f dir of
                               Inl err \<Rightarrow> Some (LinkError ''rename'' oldpath newpath ENOENT)
                             | Inr dirinfo \<Rightarrow>
                                 if \<not> info_IsDir dirinfo
                                 then Some (LinkError ''rename'' oldpath newpath ENOTDIR)
                                 else None)
                          else None)
            in case direrr of
                 Some err \<Rightarrow> (Some err, f)
               | None \<Rightarrow>
                   let (m1, movepath) =
                         (if info_IsDir oldinfo
                          then rename_range oldpath newpath ks (MapFS f, True)
                          else (MapFS f, True));
                       m2 = (if movepath
                             then AList.delete oldpath
                                    (AList.update newpath (index_map m1 oldpath) m1)
                             else m1)
                   in (None, f\<lparr>MapFS := m2\<rparr>))"

definition Remove :: "mapFs \<Rightarrow> string \<Rightarrow> error option \<times> mapFs" where
  "Remove f name =
     (if \<not> has_key (MapFS f) name then (Some (PathError ''remove'' ''name'' ENOENT), f)
      else if length (ReadDir f name) > 0 then (Some (PathError ''remove'' ''name'' ENOTEMPTY), f)
      else (None, f\<lparr>MapFS := AList.delete name (MapFS f)\<rparr>))"

definition remove_entry :: "string \<Rightarrow> table \<Rightarrow> string \<Rightarrow> table" where
  "remove_entry path m name = (if HasPrefix name path then AList.delete name m else m)"

fun removeAll_range :: "string \<Rightarrow> string list \<Rightarrow> table \<Rightarrow> table" where
  "removeAll_range path [] m = m"
| "removeAll_range path (name # ks) m =
     removeAll_range path ks (if has_key m name then remove_entry path m name else m)"

definition RemoveAll :: "string list \<Rightarrow> mapFs \<Rightarrow> string \<Rightarrow> error option \<times> mapFs" where
  "RemoveAll ks f path = (None, f\<lparr>MapFS := removeAll_range path ks (MapFS f)\<rparr>)"

text \<open>\<open>now\<close> is the value of \<^verbatim>\<open>time.Now()\<close> during the call.\<close>

definition Mkdir :: "int \<Rightarrow> mapFs \<Rightarrow> string \<Rightarrow> FileMode \<Rightarrow> error option \<times> mapFs" where
  "Mkdir now f name prm =
     (let dir = fst (path_Split name);
          direrr = (if dir \<noteq> [] then
                      (case Stat f dir of
                         Inl err \<Rightarrow> Some (PathError ''mkdir'' name ENOENT)
                       | Inr info \<Rightarrow>
                           if \<not> info_IsDir info then Some (PathError ''mkdir'' name ENOTDIR)
                           else None)
                    else None)
      in case direrr of
           Some err \<Rightarrow> (Some err, f)
         | None \<Rightarrow> (None, put_new f name \<lparr>Data = [], Mode = prm, ModTime = now\<rparr>))"

definition MkdirAll :: "int \<Rightarrow> mapFs \<Rightarrow> string \<Rightarrow> FileMode \<Rightarrow> error option \<times> mapFs" where
  "MkdirAll now f name prm =
     (let dir = fst (path_Split name) in
      case Stat f dir of
        Inl err \<Rightarrow> (None, put_new f name \<lparr>Data = [], Mode = prm, ModTime = now\<rparr>)
      | Inr info \<Rightarrow>
          if \<not> info_IsDir info then (Some (PathError ''mkdir'' name ENOTDIR), f)
          else (None, f))"

section \<open>What the specification asks of an error\<close>

text \<open>
  A path error carrying the operation \<open>op\<close> and the path \<open>p\<close>; a link error carrying
  the operation and both paths.
\<close>

definition path_error :: "string \<Rightarrow> string \<Rightarrow> error \<Rightarrow> bool" where
  "path_error op p e = (case e of PathError op' p' e' \<Rightarrow> op' = op \<and> p' = p | _ \<Rightarrow> False)"

definition link_error :: "string \<Rightarrow> string \<Rightarrow> string \<Rightarrow> error \<Rightarrow> bool" where
  "link_error op p q e =
     (case e of LinkError op' p' q' e' \<Rightarrow> op' = op \<and> p' = p \<and> q' = q | _ \<Rightarrow> False)"

text \<open>
  A call of an operation of the filesystem or of a handle, the error it returns (none
  when it succeeds or panics), and the scope the error is to carry: the name under
  which the operation reports, and the path or paths of the call (for a handle, the
  path it was opened with).
\<close>

datatype call =
    Call_OpenFile mapFs string int FileMode
  | Call_Stat mapFs string
  | Call_Rename "string list" mapFs string string
  | Call_Remove mapFs string
  | Call_RemoveAll "string list" mapFs string
  | Call_Mkdir int mapFs string FileMode
  | Call_MkdirAll int mapFs string FileMode
  | Call_Read mapFsFile nat
  | Call_ReadAt mapFsFile nat int
  | Call_Seek mapFsFile int int
  | Call_Write mapFs mapFsFile "byte list"
  | Call_WriteAt mapFs mapFsFile "byte list" int
  | Call_Truncate mapFs mapFsFile int

fun error_of :: "call \<Rightarrow> error option" where
  "error_of (Call_OpenFile f name flg prm) =
     (case OpenFile f name flg prm of Return (Inl err, f') \<Rightarrow> Some err | _ \<Rightarrow> None)"
| "error_of (Call_Stat f name) = (case Stat f name of Inl err \<Rightarrow> Some err | Inr info \<Rightarrow> None)"
| "error_of (Call_Rename ks f oldpath newpath) = fst (Rename ks f oldpath newpath)"
| "error_of (Call_Remove f name) = fst (Remove f name)"
| "error_of (Call_RemoveAll ks f path) = fst (RemoveAll ks f path)"
| "error_of (Call_Mkdir now f name prm) = fst (Mkdir now f name prm)"
| "error_of (Call_MkdirAll now f name prm) = fst (MkdirAll now f name prm)"
| "error_of (Call_Read h n) = snd (fst (Read h n))"
| "error_of (Call_ReadAt h n off) = snd (ReadAt h n off)"
| "error_of (Call_Seek h offset whence) = snd (fst (Seek h offset whence))"
| "error_of (Call_Write st h b) =
     (case Write st h b of Return ((n, err), st', h') \<Rightarrow> err | Panic \<Rightarrow> None)"
| "error_of (Call_WriteAt st h b off) =
     (case WriteAt st h b off of Return ((n, err), st', h') \<Rightarrow> err | Panic \<Rightarrow> None)"
| "error_of (Call_Truncate st h sz) =
     (case Truncate st h sz of Return (err, st', h') \<Rightarrow> err | Panic \<Rightarrow> None)"

fun scoped :: "call \<Rightarrow> error \<Rightarrow> bool" where
  "scoped (Call_OpenFile f name flg prm) e = path_error ''open'' name e"
| "scoped (Call_Stat f name) e = path_error ''stat'' name e"
| "scoped (Call_Rename ks f oldpath newpath) e = link_error ''rename'' oldpath newpath e"
| "scoped (Call_Remove f name) e = path_error ''remove'' name e"
| "scoped (Call_RemoveAll ks f path) e = path_error ''removeall'' path e"
| "scoped (Call_Mkdir now f name prm) e = path_error ''mkdir'' name e"
| "scoped (Call_MkdirAll now f name prm) e = path_error ''mkdir'' name e"
| "scoped (Call_Read h n) e = path_error ''read'' (fname h) e"
| "scoped (Call_ReadAt h n off) e = path_error ''read'' (fname h) e"
| "scoped (Call_Seek h offset whence) e = path_error ''seek'' (fname h) e"
| "scoped (Call_Write st h b) e = path_error ''write'' (fname h) e"
| "scoped (Call_WriteAt st h b off) e =
     (path_error ''write'' (fname h) e \<or> path_error ''writeat'' (fname h) e)"
| "scoped (Call_Truncate st h sz) e = path_error ''truncate'' (fname h) e"

text \<open>
  The calls left out of the amended scoping property: \<open>Remove\<close>, and \<open>WriteAt\<close> on a
  handle opened with \<^verbatim>\<open>O_APPEND\<close>.
\<close>

fun unscoped_call :: "call \<Rightarrow> bool" where
  "unscoped_call (Call_Remove f name) = True"
| "unscoped_call (Call_WriteAt st h b off) = (fflag h AND O_APPEND \<noteq> 0)"
| "unscoped_call c = False"

text \<open>The calls that read: their end-of-data signal is \<^verbatim>\<open>io.EOF\<close> itself.\<close>

fun reads :: "call \<Rightarrow> bool" where
  "reads (Call_Read h n) = True"
| "reads (Call_ReadAt h n off) = True"
| "reads c = False"

section \<open>Well-formed values and example file systems\<close>

text \<open>
  The position of a \<^verbatim>\<open>bytes.Reader\<close> is an \<^verbatim>\<open>int64\<close> that \<^verbatim>\<open>Seek\<close> never lets go
  negative; the length of a slice is an \<^verbatim>\<open>int\<close>.
\<close>

definition reader_ok :: "Reader \<Rightarrow> bool" where
  "reader_ok r = (0 \<le> rd_i r \<and> rd_i r < 2 ^ 63)"

definition slice_ok :: "byte list \<Rightarrow> bool" where
  "slice_ok d = (int (length d) < 2 ^ 63)"


text \<open>No key of the table lies below \<open>P\<close>, so that \<open>P\<close> is not an implied directory.\<close>

definition implied :: "(string \<times> addr option) list \<Rightarrow> string \<Rightarrow> bool" where
  "implied m P = (\<exists>k \<in> set (map fst m). HasPrefix k (P @ ''/''))"

definition blank :: MapFile where
  "blank = \<lparr>Data = [], Mode = 0, ModTime = 0\<rparr>"

text \<open>\<^verbatim>\<open>fstest.MapFS{}\<close>.\<close>

definition empty_fs :: mapFs where
  "empty_fs = \<lparr>store = (\<lambda>a. blank), fresh = 0, MapFS = []\<rparr>"

text \<open>\<^verbatim>\<open>fstest.MapFS{"testfile": &fstest.MapFile{Data: []byte("Hi")}}\<close>.\<close>

definition hi_fs :: mapFs where
  "hi_fs = \<lparr>store = (\<lambda>a. blank)(0 := \<lparr>Data = [0x48, 0x69], Mode = 0, ModTime = 0\<rparr>),
            fresh = 1, MapFS = [(''testfile'', Some 0)]\<rparr>"

text \<open>The handle \<open>OpenFile\<close> gives on \<open>testfile\<close> in \<open>hi_fs\<close> for the flags \<open>flg\<close>.\<close>

definition hi_handle :: "int \<Rightarrow> mapFsFile" where
  "hi_handle flg =
     \<lparr>fsFile = openMapFile ''testfile'' 0, mfile = Some 0, fname = ''testfile'', fflag = flg,
      fperm = 0, reader = \<lparr>rd_s = [0x48, 0x69], rd_i = 0\<rparr>\<rparr>"

text \<open>\<open>hi_fs\<close> with the data of \<open>testfile\<close> replaced.\<close>

definition hi_fs_with :: "byte list \<Rightarrow> mapFs" where
  "hi_fs_with d = hi_fs\<lparr>store := (store hi_fs)(0 := \<lparr>Data = d, Mode = 0, ModTime = 0\<rparr>)\<rparr>"

text \<open>\<^verbatim>\<open>fstest.MapFS{"d/f": &fstest.MapFile{}}\<close>: the directory \<open>d\<close> is only implied.\<close>

definition tree_fs :: mapFs where
  "tree_fs = \<lparr>store = (\<lambda>a. blank), fresh = 1, MapFS = [(''d/f'', Some 0)]\<rparr>"

text \<open>
  \<^verbatim>\<open>fstest.MapFS{"D": &fstest.MapFile{Mode: fs.ModeDir | 0755}, "D/f": &fstest.MapFile{}}\<close>
  (octal 755 is hexadecimal 1ED).
\<close>

definition D_fs :: mapFs where
  "D_fs = \<lparr>store = (\<lambda>a. blank)(0 := \<lparr>Data = [], Mode = 0x800001ED, ModTime = 0\<rparr>),
           fresh = 2, MapFS = [(''D'', Some 0), (''D/f'', Some 1)]\<rparr>"

section \<open>Evaluation rules\<close>

lemmas flag_defs = O_RDONLY_def O_WRONLY_def O_RDWR_def O_CREATE_def O_TRUNC_def O_APPEND_def

lemmas whence_defs = SeekStart_def SeekCurrent_def SeekEnd_def

lemmas path_defs = ValidPath_def byte_in_def bad_elem_def path_Split_def LastIndex_slash_def

lemmas open_defs = Open_def open_dir_def dir_list_def dir_need_def below_def index_map_def
  HasPrefix_def slash_free_def first_elem_def ModeDir_def mapFileInfo_def implied_dir_def
  has_key_def

lemmas fs_defs = empty_fs_def hi_fs_def hi_handle_def hi_fs_with_def tree_fs_def D_fs_def
  blank_def

section \<open>The example file systems evaluated\<close>

lemma Stat_D_fs_D:
  "Stat D_fs ''D''
     = Inr \<lparr>info_Size = 0, info_Mode = 0x800001ED, info_ModTime = 0, info_IsDir = True\<rparr>"
  by (simp add: fs_defs path_defs Stat_def open_defs)

lemma Stat_D_fs_missing:
  "Stat D_fs ''x/y'' = Inl (PathError ''stat'' ''x/y'' (PathError ''open'' ''x/y'' ErrNotExist))"
  "Stat D_fs ''x/'' = Inl (PathError ''stat'' ''x/'' (PathError ''open'' ''x/'' ErrNotExist))"
  "Stat D_fs ''D/'' = Inl (PathError ''stat'' ''D/'' (PathError ''open'' ''D/'' ErrNotExist))"
  by (simp_all add: fs_defs path_defs Stat_def open_defs)

lemma path_Split_examples:
  "path_Split ''x/y'' = (''x/'', ''y'')"
  "path_Split ''D/child'' = (''D/'', ''child'')"
  "path_Split ''D2'' = ([], ''D2'')"
  "path_Split ''testdir'' = ([], ''testdir'')"
  by (simp_all add: path_defs)

lemma ReadDir_D_fs_D: "ReadDir D_fs ''D'' = [''f'']"
  by (simp add: ReadDir_def fs_defs path_defs open_defs)

section \<open>Rename, Remove and Mkdir\<close>

text \<open>
  The directory part that \<^verbatim>\<open>path.Split\<close> gives ends with its slash, and a path that
  ends with a slash is not valid: \<open>Stat\<close> of a non-empty directory part always fails, so
  that \<open>Mkdir\<close> and \<open>Rename\<close> fail for every target with a parent component.
\<close>

lemma valid_elems_trailing_slash: "\<not> valid_elems elem (xs @ ''/'')"
  by (induction xs arbitrary: elem) (simp_all add: bad_elem_def)

lemma path_Split_dir:
  "fst (path_Split p) = rev (dropWhile (\<lambda>c. c \<noteq> CHR ''/'') (rev p))"
proof (cases "CHR ''/'' \<in> set p")
  case False
  then have "dropWhile (\<lambda>c. c \<noteq> CHR ''/'') (rev p) = []" by (auto simp: dropWhile_eq_Nil_conv)
  then show ?thesis using False by (simp add: path_Split_def LastIndex_slash_def)
next
  case True
  let ?t = "takeWhile (\<lambda>c. c \<noteq> CHR ''/'') (rev p)"
  let ?d = "dropWhile (\<lambda>c. c \<noteq> CHR ''/'') (rev p)"
  have split: "rev p = ?t @ ?d" by simp
  then have p: "p = rev ?d @ rev ?t" by (metis rev_append rev_rev_ident)
  have "?d \<noteq> []" using True by (auto simp: dropWhile_eq_Nil_conv)
  then have lt: "length ?t < length p"
    using split by (metis length_append length_rev less_add_same_cancel1 length_greater_0_conv)
  have len: "length ?d = length p - length ?t"
    using split by (metis add_diff_cancel_left' length_append length_rev)
  have "nat (LastIndex_slash p + 1) = length p - length ?t"
    using True lt by (simp add: LastIndex_slash_def)
  then have "fst (path_Split p) = take (length ?d) p"
    by (simp add: path_Split_def Let_def len)
  also have "\<dots> = take (length (rev ?d)) (rev ?d @ rev ?t)" using p by simp
  also have "\<dots> = rev ?d" by (simp del: length_rev)
  finally show ?thesis .
qed

lemma path_Split_dir_invalid:
  assumes "fst (path_Split p) \<noteq> []"
  shows "\<not> ValidPath (fst (path_Split p))"
proof -
  let ?d = "dropWhile (\<lambda>c. c \<noteq> CHR ''/'') (rev p)"
  have d: "?d \<noteq> []" using assms by (simp add: path_Split_dir)
  then have "hd ?d = CHR ''/''" using hd_dropWhile [of "\<lambda>c. c \<noteq> CHR ''/''" "rev p"] by blast
  then obtain ys where "?d = CHR ''/'' # ys" using d by (cases ?d) auto
  then have "fst (path_Split p) = rev ys @ ''/''" by (simp add: path_Split_dir)
  then show ?thesis by (simp add: ValidPath_def valid_elems_trailing_slash)
qed

lemma Stat_dir_fails:
  "fst (path_Split p) \<noteq> [] \<Longrightarrow> \<exists>e. Stat f (fst (path_Split p)) = Inl e"
  by (simp add: Stat_def Open_def path_Split_dir_invalid)

lemma Mkdir_nested_fails:
  "fst (path_Split name) \<noteq> [] \<Longrightarrow>
     Mkdir now f name prm = (Some (PathError ''mkdir'' name ENOENT), f)"
  using Stat_dir_fails [of name f] by (auto simp: Mkdir_def Let_def)

lemma Rename_nested_fails:
  "fst (path_Split newpath) \<noteq> [] \<Longrightarrow> fst (Rename ks f oldpath newpath) \<noteq> None"
  using Stat_dir_fails [of newpath f]
  by (auto simp: Rename_def Let_def split: sum.split)

lemma Rename_D_fs_once:
  "range_order (rename_entry ''D'' ''D2'') (map fst (MapFS D_fs)) [''D/f'', ''D''] (MapFS D_fs)
   \<and> Rename [''D/f'', ''D''] D_fs ''D'' ''D2''
       = (None, D_fs\<lparr>MapFS := [(''D2/f'', Some 1), (''D2'', Some 0)]\<rparr>)"
  by (simp add: Rename_def rename_entry_def fs_defs path_defs Stat_def open_defs)

text \<open>
  C2. For every directory record at \<open>oldpath\<close>, \<open>Rename oldpath newpath\<close> should move every
  entry whose key has \<open>oldpath\<close> as a prefix to the key with \<open>newpath\<close> substituted, so that
  renaming a directory \<open>D\<close> with the child \<open>D/f\<close> to \<open>D2\<close> makes \<open>D2/f\<close> exist. The loop
  inserts the new keys into the map it is ranging over, and a new key that again starts
  with \<open>oldpath\<close> is renamed a second time when the runtime produces it: for the table
  with the directory \<open>D\<close> and the file \<open>D/f\<close>, the order \<open>D/f\<close>, \<open>D2/f\<close>, \<open>D\<close> is one the
  language allows, the call succeeds, and it leaves the keys \<open>D22/f\<close> and \<open>D2\<close>, so that
  \<open>D2/f\<close> does not exist. (When the runtime produces only \<open>D/f\<close> and \<open>D\<close>, the same call
  leaves \<open>D2/f\<close> and \<open>D2\<close>.)
\<close>

theorem C2_rename_moves_twice:
  "range_order (rename_entry ''D'' ''D2'') (map fst (MapFS D_fs))
     [''D/f'', ''D2/f'', ''D''] (MapFS D_fs)
   \<and> Rename [''D/f'', ''D2/f'', ''D''] D_fs ''D'' ''D2''
       = (None, D_fs\<lparr>MapFS := [(''D22/f'', Some 1), (''D2'', Some 0)]\<rparr>)
   \<and> Stat (D_fs\<lparr>MapFS := [(''D22/f'', Some 1), (''D2'', Some 0)]\<rparr>) ''D2/f''
       = Inl (PathError ''stat'' ''D2/f'' (PathError ''open'' ''D2/f'' ErrNotExist))"
  by (simp add: Rename_def rename_entry_def fs_defs path_defs Stat_def open_defs)

text \<open>
  C7. \<open>Mkdir\<close> should create a record whose directory flag is set, so that \<open>Stat\<close> reports
  a directory, whenever the path has no parent component or its parent is a directory.
  The record it stores has the mode \<open>perm\<close> as passed, without the directory flag: after
  \<open>Mkdir "testdir" 0755\<close> on the empty file system (the call of the package's own test;
  octal 755 is hexadecimal 1ED), \<open>Stat\<close> reports an ordinary file. And for a path with a
  parent component the parent is looked up with its trailing slash, which is never a valid
  path (\<open>Mkdir_nested_fails\<close>): \<open>Mkdir "D/child"\<close> fails with \<open>ENOENT\<close> although \<open>D\<close> is a
  directory record.
\<close>

theorem C7_mkdir_no_directory_flag:
  "Mkdir now empty_fs ''testdir'' 0x1ED
     = (None, \<lparr>store = (\<lambda>a. blank)(0 := \<lparr>Data = [], Mode = 0x1ED, ModTime = now\<rparr>),
               fresh = 1, MapFS = [(''testdir'', Some 0)]\<rparr>)
   \<and> \<not> IsDir 0x1ED
   \<and> Stat (snd (Mkdir now empty_fs ''testdir'' 0x1ED)) ''testdir''
       = Inr \<lparr>info_Size = 0, info_Mode = 0x1ED, info_ModTime = now, info_IsDir = False\<rparr>
   \<and> Stat D_fs ''D''
       = Inr \<lparr>info_Size = 0, info_Mode = 0x800001ED, info_ModTime = 0, info_IsDir = True\<rparr>
   \<and> Mkdir now D_fs ''D/child'' 0x1ED = (Some (PathError ''mkdir'' ''D/child'' ENOENT), D_fs)"
proof -
  have made: "Mkdir now empty_fs ''testdir'' 0x1ED
     = (None, \<lparr>store = (\<lambda>a. blank)(0 := \<lparr>Data = [], Mode = 0x1ED, ModTime = now\<rparr>),
               fresh = 1, MapFS = [(''testdir'', Some 0)]\<rparr>)"
    by (simp add: Mkdir_def path_Split_examples put_new_def new_MapFile_def empty_fs_def)
  have stat: "Stat \<lparr>store = (\<lambda>a. blank)(0 := \<lparr>Data = [], Mode = 0x1ED, ModTime = now\<rparr>),
                    fresh = 1, MapFS = [(''testdir'', Some 0)]\<rparr> ''testdir''
       = Inr \<lparr>info_Size = 0, info_Mode = 0x1ED, info_ModTime = now, info_IsDir = False\<rparr>"
    by (simp add: Stat_def path_defs open_defs)
  have flag: "\<not> IsDir 0x1ED"
    by (simp add: IsDir_def ModeDir_def)
  have nested: "Mkdir now D_fs ''D/child'' 0x1ED
       = (Some (PathError ''mkdir'' ''D/child'' ENOENT), D_fs)"
    by (simp add: Mkdir_def Stat_D_fs_missing path_Split_examples)
  show ?thesis
    using made stat flag nested Stat_D_fs_D by simp
qed

lemma Rename_failed:
  "fst (Rename ks f oldpath newpath) \<noteq> None \<longrightarrow> snd (Rename ks f oldpath newpath) = f"
  by (simp add: Rename_def Let_def split: sum.split option.split prod.split)

lemma Remove_failed: "fst (Remove f name) \<noteq> None \<longrightarrow> snd (Remove f name) = f"
  by (simp add: Remove_def)

lemma Mkdir_failed:
  "fst (Mkdir now f name prm) \<noteq> None \<longrightarrow> snd (Mkdir now f name prm) = f"
  by (simp add: Mkdir_def Let_def split: sum.split option.split)

text \<open>
  C9. Whenever \<open>Rename\<close>, \<open>Remove\<close> or \<open>Mkdir\<close> returns an error, the file system (the path
  table, and the records with it) is exactly what it was before the call.
\<close>

theorem C9_failed_call_changes_nothing:
  "(fst (Rename ks f oldpath newpath) \<noteq> None \<longrightarrow> snd (Rename ks f oldpath newpath) = f)
   \<and> (fst (Remove f name) \<noteq> None \<longrightarrow> snd (Remove f name) = f)
   \<and> (fst (Mkdir now f dirname prm) \<noteq> None \<longrightarrow> snd (Mkdir now f dirname prm) = f)"
  using Rename_failed Remove_failed Mkdir_failed by blast

theorem C9_witness:
  "fst (Rename [''D'', ''D/f''] D_fs ''D'' ''x/y'') = Some (LinkError ''rename'' ''D'' ''x/y'' ENOENT)
   \<and> snd (Rename [''D'', ''D/f''] D_fs ''D'' ''x/y'') = D_fs
   \<and> fst (Remove D_fs ''D'') = Some (PathError ''remove'' ''name'' ENOTEMPTY)
   \<and> snd (Remove D_fs ''D'') = D_fs
   \<and> fst (Mkdir 0 D_fs ''D/child'' 0x1ED) = Some (PathError ''mkdir'' ''D/child'' ENOENT)
   \<and> snd (Mkdir 0 D_fs ''D/child'' 0x1ED) = D_fs"
proof -
  have r: "fst (Rename [''D'', ''D/f''] D_fs ''D'' ''x/y'')
             = Some (LinkError ''rename'' ''D'' ''x/y'' ENOENT)"
    by (simp add: Rename_def Stat_D_fs_D Stat_D_fs_missing path_Split_examples)
  have d: "fst (Remove D_fs ''D'') = Some (PathError ''remove'' ''name'' ENOTEMPTY)"
    by (simp add: Remove_def ReadDir_D_fs_D) (simp add: D_fs_def has_key_def)
  have m: "fst (Mkdir 0 D_fs ''D/child'' 0x1ED) = Some (PathError ''mkdir'' ''D/child'' ENOENT)"
    by (simp add: Mkdir_def Stat_D_fs_missing path_Split_examples)
  show ?thesis
    using r d m
      C9_failed_call_changes_nothing [of "[''D'', ''D/f'']" D_fs "''D''" "''x/y''" "''D''" 0
        "''D/child''" "0x1ED"]
    by simp
qed

section \<open>Reading and writing through a handle\<close>

lemma wrap64_id: "- (2 ^ 63) \<le> x \<Longrightarrow> x < 2 ^ 63 \<Longrightarrow> wrap64 x = x"
  by (simp add: wrap64_def)

lemma copy_at_length: "p \<le> length d \<Longrightarrow> length (fst (copy_at d p b)) = length d"
  by (auto simp: copy_at_def Let_def min_def)

lemma copy_at_count: "snd (copy_at d p b) = min (length d - p) (length b)"
  by (simp add: copy_at_def Let_def)

lemma copy_at_before: "p \<le> length d \<Longrightarrow> i < p \<Longrightarrow> fst (copy_at d p b) ! i = d ! i"
  by (simp add: copy_at_def Let_def nth_append)

lemma copy_at_after:
  "p \<le> length d \<Longrightarrow> p + length b \<le> i \<Longrightarrow> i < length d \<Longrightarrow> fst (copy_at d p b) ! i = d ! i"
  by (auto simp: copy_at_def Let_def nth_append min_def)

lemma copy_at_written:
  "p \<le> length d \<Longrightarrow> i < min (length d - p) (length b) \<Longrightarrow> fst (copy_at d p b) ! (p + i) = b ! i"
  by (auto simp: copy_at_def Let_def nth_append min_def)

lemma Reader_Seek_current:
  "reader_ok r \<Longrightarrow> Reader_Seek r 0 SeekCurrent = ((rd_i r, None), r)"
  by (simp add: Reader_Seek_def whence_defs reader_ok_def wrap64_id)

lemma Reader_Seek_start:
  "0 \<le> pos \<Longrightarrow> Reader_Seek r pos SeekStart = ((pos, None), r\<lparr>rd_i := pos\<rparr>)"
  by (simp add: Reader_Seek_def whence_defs)

lemma Reader_Seek_rd_s: "rd_s (snd (Reader_Seek r offset whence)) = rd_s r"
  by (simp add: Reader_Seek_def Let_def)

lemma reset_Some:
  "mfile h = Some a \<Longrightarrow>
     reset st h = Return (h\<lparr>reader :=
        snd (Reader_Seek (Reader_Reset (snd (Reader_Seek (reader h) 0 SeekCurrent)) (Data (store st a)))
              (fst (fst (Reader_Seek (reader h) 0 SeekCurrent))) SeekStart)\<rparr>)"
  by (simp add: reset_def split_beta)

lemma reset_None: "mfile h = None \<Longrightarrow> reset st h = Panic"
  by (simp add: reset_def split_beta)

lemma reset_buffer:
  assumes "reset st h = Return h'" "mfile h = Some a"
  shows "rd_s (reader h') = Data (store st a)"
  using assms by (auto simp: reset_Some Reader_Seek_rd_s Reader_Reset_def)

lemma reset_cursor:
  assumes "reset st h = Return h'" "mfile h = Some a" "reader_ok (reader h)"
  shows "rd_i (reader h') = rd_i (reader h)"
proof -
  have pos: "0 \<le> rd_i (reader h)" using assms(3) by (simp add: reader_ok_def)
  show ?thesis
    using assms(1) by (simp add: reset_Some [OF assms(2)] Reader_Seek_current [OF assms(3)]
        Reader_Seek_start [OF pos]) auto
qed

lemma reset_fields:
  assumes "reset st h = Return h'"
  shows "mfile h' = mfile h \<and> fname h' = fname h \<and> fflag h' = fflag h \<and> fperm h' = fperm h"
proof (cases "mfile h")
  case None
  then show ?thesis using assms by (simp add: reset_None)
next
  case (Some a)
  then show ?thesis using assms by (simp add: reset_Some) auto
qed

lemma write_at_Return:
  assumes "write_at st h pos b = Return (n, st', h')" "mfile h = Some a"
  defines "d1 \<equiv> grow (Data (store st a)) (wrap64 (pos + int (length b)))"
  shows "0 \<le> pos" "pos \<le> int (length d1)" "n = snd (copy_at d1 (nat pos) b)"
    "st' = set_Data st a (fst (copy_at d1 (nat pos) b))" "reset st' h = Return h'"
proof -
  have range: "\<not> (pos < 0 \<or> pos > int (length d1))"
    using assms(1) by (auto simp: write_at_def assms(2) d1_def Let_def)
  then show "0 \<le> pos" "pos \<le> int (length d1)" by auto
  have "(case reset (set_Data st a (fst (copy_at d1 (nat pos) b))) h of
           Panic \<Rightarrow> Panic
         | Return h' \<Rightarrow> Return (snd (copy_at d1 (nat pos) b),
                                set_Data st a (fst (copy_at d1 (nat pos) b)), h'))
        = Return (n, st', h')"
    using assms(1) range by (simp add: write_at_def assms(2) d1_def [symmetric] Let_def split_beta)
  then show "n = snd (copy_at d1 (nat pos) b)"
    "st' = set_Data st a (fst (copy_at d1 (nat pos) b))" "reset st' h = Return h'"
    by (auto split: result.splits)
qed

lemma grow_prefix: "length d \<le> length (grow d e) \<and> take (length d) (grow d e) = d"
  by (simp add: grow_def)

lemma grow_nth: "i < length d \<Longrightarrow> grow d e ! i = d ! i"
  by (simp add: grow_def nth_append)

lemma store_set_Data: "Data (store (set_Data st a d) a) = d"
  by (simp add: set_Data_def)

text \<open>What a write leaves alone.\<close>

lemma write_at_frame:
  assumes "write_at st h pos b = Return (n, st', h')" "mfile h = Some a"
  shows "length (Data (store st a)) \<le> length (Data (store st' a))"
    and "\<And>i. i < length (Data (store st a)) \<Longrightarrow> i < nat pos \<or> nat pos + length b \<le> i
            \<Longrightarrow> Data (store st' a) ! i = Data (store st a) ! i"
proof -
  let ?d = "Data (store st a)"
  let ?d1 = "grow ?d (wrap64 (pos + int (length b)))"
  note w = write_at_Return [OF assms]
  have p: "nat pos \<le> length ?d1" using w(1,2) by linarith
  have d': "Data (store st' a) = fst (copy_at ?d1 (nat pos) b)"
    by (simp add: w(4) store_set_Data)
  show "length ?d \<le> length (Data (store st' a))"
    using grow_prefix [of ?d] by (simp add: d' copy_at_length [OF p])
  fix i assume i: "i < length ?d" and out: "i < nat pos \<or> nat pos + length b \<le> i"
  have i1: "i < length ?d1" using i grow_prefix [of ?d "wrap64 (pos + int (length b))"] by linarith
  from out show "Data (store st' a) ! i = ?d ! i"
  proof
    assume "i < nat pos"
    then show ?thesis by (simp add: d' copy_at_before [OF p] grow_nth [OF i])
  next
    assume "nat pos + length b \<le> i"
    then show ?thesis by (simp add: d' copy_at_after [OF p _ i1] grow_nth [OF i])
  qed
qed

lemma Seek_current:
  "\<not> IsDir (fperm h) \<Longrightarrow> reader_ok (reader h) \<Longrightarrow> Seek h 0 SeekCurrent = ((rd_i (reader h), None), h)"
  by (simp add: Seek_def Reader_Seek_current)

lemma Write_Return:
  assumes "Write st h b = Return ((n, None), st', h')" "reader_ok (reader h)"
  shows "\<exists>h1. write_at st h (rd_i (reader h)) b = Return (n, st', h1)
            \<and> h' = h1\<lparr>reader := snd (Reader_Seek (reader h1) (int n) SeekCurrent)\<rparr>"
proof -
  have guard: "\<not> (IsDir (fperm h) \<or> fflag h AND (O_WRONLY OR O_RDWR) = 0)"
    using assms(1) by (auto simp: Write_def)
  then have nd: "\<not> IsDir (fperm h)" by simp
  show ?thesis
    using assms(1) guard
    by (simp add: Write_def Seek_current [OF nd assms(2)] split_beta split: result.splits) auto
qed

lemma WriteAt_Return:
  assumes "WriteAt st h b off = Return ((n, None), st', h')"
  shows "write_at st h off b = Return (n, st', h')"
  using assms by (simp add: WriteAt_def split: if_splits result.splits) auto


lemma wrap64_small: "wrap64 0 = 0" "wrap64 1 = 1" "wrap64 2 = 2" "wrap64 3 = 3" "wrap64 6 = 6"
  by (simp_all add: wrap64_def)

lemma hi_handle_fields:
  "mfile (hi_handle flg) = Some 0" "fperm (hi_handle flg) = 0" "fflag (hi_handle flg) = flg"
  "fname (hi_handle flg) = ''testfile''" "reader (hi_handle flg) = \<lparr>rd_s = [0x48, 0x69], rd_i = 0\<rparr>"
  by (simp_all add: hi_handle_def)

lemma hi_fs_Data: "Data (store hi_fs 0) = [0x48, 0x69]" "Data (store (hi_fs_with d) 0) = d"
  by (simp_all add: hi_fs_def hi_fs_with_def)

lemma set_Data_hi_fs: "set_Data hi_fs 0 d = hi_fs_with d"
  by (simp add: set_Data_def hi_fs_with_def hi_fs_def)

lemma not_IsDir_0: "\<not> IsDir 0"
  by (simp add: IsDir_def)

lemma rdwr_writes: "O_RDWR AND (O_WRONLY OR O_RDWR) \<noteq> 0" "O_RDWR AND O_APPEND = 0"
  by (simp_all add: flag_defs)

lemma reset_hi:
  "reset (hi_fs_with d) (hi_handle flg) = Return ((hi_handle flg)\<lparr>reader := \<lparr>rd_s = d, rd_i = 0\<rparr>\<rparr>)"
  by (simp add: reset_Some [of _ 0] hi_handle_fields hi_fs_Data Reader_Seek_def Reader_Reset_def
      whence_defs wrap64_small)

lemma write_at_hi_1:
  "write_at hi_fs (hi_handle flg) 1 [0x58]
     = Return (1, hi_fs_with [0x48, 0x58], (hi_handle flg)\<lparr>reader := \<lparr>rd_s = [0x48, 0x58], rd_i = 0\<rparr>\<rparr>)"
  by (simp add: write_at_def hi_handle_fields hi_fs_Data wrap64_small grow_def copy_at_def
      set_Data_hi_fs reset_hi)

lemma write_at_hi_0:
  "write_at hi_fs (hi_handle flg) 0 [0x58]
     = Return (1, hi_fs_with [0x58, 0x69], (hi_handle flg)\<lparr>reader := \<lparr>rd_s = [0x58, 0x69], rd_i = 0\<rparr>\<rparr>)"
  by (simp add: write_at_def hi_handle_fields hi_fs_Data wrap64_small grow_def copy_at_def
      set_Data_hi_fs reset_hi)

lemma write_at_hi_5:
  "write_at hi_fs (hi_handle flg) 5 [0x58]
     = Return (1, hi_fs_with [0x48, 0x69, 0, 0, 0, 0x58],
               (hi_handle flg)\<lparr>reader := \<lparr>rd_s = [0x48, 0x69, 0, 0, 0, 0x58], rd_i = 0\<rparr>\<rparr>)"
  by (simp add: write_at_def hi_handle_fields hi_fs_Data wrap64_small grow_def copy_at_def
      set_Data_hi_fs reset_hi eval_nat_numeral)

lemma write_at_hi_xyz:
  "write_at hi_fs (hi_handle flg) 0 [0x58, 0x59, 0x5A]
     = Return (3, hi_fs_with [0x58, 0x59, 0x5A],
               (hi_handle flg)\<lparr>reader := \<lparr>rd_s = [0x58, 0x59, 0x5A], rd_i = 0\<rparr>\<rparr>)"
  by (simp add: write_at_def hi_handle_fields hi_fs_Data wrap64_small grow_def copy_at_def
      set_Data_hi_fs reset_hi)

lemma reader_ok_hi: "reader_ok (reader (hi_handle flg))"
  by (simp add: hi_handle_fields reader_ok_def)

lemma Seek_hi: "Seek (hi_handle flg) 0 SeekCurrent = ((0, None), hi_handle flg)"
  by (simp add: Seek_current hi_handle_fields not_IsDir_0 reader_ok_def)

lemma Write_hi_X:
  "Write hi_fs (hi_handle O_RDWR) [0x58]
     = Return ((1, None), hi_fs_with [0x58, 0x69],
               (hi_handle O_RDWR)\<lparr>reader := \<lparr>rd_s = [0x58, 0x69], rd_i = 1\<rparr>\<rparr>)"
  by (simp add: Write_def hi_handle_fields not_IsDir_0 rdwr_writes Seek_hi write_at_hi_0)
    (simp add: Reader_Seek_def whence_defs wrap64_small)

lemma Write_hi_XYZ:
  "Write hi_fs (hi_handle O_RDWR) [0x58, 0x59, 0x5A]
     = Return ((3, None), hi_fs_with [0x58, 0x59, 0x5A],
               (hi_handle O_RDWR)\<lparr>reader := \<lparr>rd_s = [0x58, 0x59, 0x5A], rd_i = 3\<rparr>\<rparr>)"
  by (simp add: Write_def hi_handle_fields not_IsDir_0 rdwr_writes Seek_hi write_at_hi_xyz)
    (simp add: Reader_Seek_def whence_defs wrap64_small)

lemma WriteAt_hi_1:
  "WriteAt hi_fs (hi_handle O_RDWR) [0x58] 1
     = Return ((1, None), hi_fs_with [0x48, 0x58],
               (hi_handle O_RDWR)\<lparr>reader := \<lparr>rd_s = [0x48, 0x58], rd_i = 0\<rparr>\<rparr>)"
  by (simp add: WriteAt_def hi_handle_fields not_IsDir_0 rdwr_writes write_at_hi_1)

lemma WriteAt_hi_5:
  "WriteAt hi_fs (hi_handle O_RDWR) [0x58] 5
     = Return ((1, None), hi_fs_with [0x48, 0x69, 0, 0, 0, 0x58],
               (hi_handle O_RDWR)\<lparr>reader := \<lparr>rd_s = [0x48, 0x69, 0, 0, 0, 0x58], rd_i = 0\<rparr>\<rparr>)"
  by (simp add: WriteAt_def hi_handle_fields not_IsDir_0 rdwr_writes write_at_hi_5)

text \<open>
  C6. \<open>Read\<close> should fail exactly when the handle is a directory or was opened without
  read access, so that every handle opened with read access on an ordinary file can read.
  The access test of \<open>Read\<close> lets a handle through only when its flags are exactly
  \<^verbatim>\<open>O_RDONLY\<close> (zero) or contain \<^verbatim>\<open>O_RDWR\<close>: \<open>testfile\<close> opened with
  \<^verbatim>\<open>O_RDONLY|O_CREATE\<close> is an ordinary file opened without any write access, and \<open>Read\<close>
  on it fails with \<open>EBADF\<close>, while the same file opened with \<^verbatim>\<open>O_RDONLY\<close> alone reads its
  two bytes.
\<close>

theorem C6_read_rejects_read_only_with_create:
  "OpenFile hi_fs ''testfile'' (O_RDONLY OR O_CREATE) 0
     = Return (Inr (hi_handle (O_RDONLY OR O_CREATE)), hi_fs)
   \<and> \<not> IsDir (fperm (hi_handle (O_RDONLY OR O_CREATE)))
   \<and> (O_RDONLY OR O_CREATE) AND (O_WRONLY OR O_RDWR) = 0
   \<and> fst (Read (hi_handle (O_RDONLY OR O_CREATE)) 2)
       = ([], Some (PathError ''read'' ''testfile'' EBADF))
   \<and> fst (Read (hi_handle O_RDONLY) 2) = ([0x48, 0x69], None)"
  by (simp add: OpenFile_def open_or_create_def new_handle_def fs_defs path_defs open_defs
      flag_defs NewReader_def Read_def IsDir_def Reader_Read_def Let_def)

text \<open>
  C10. A successful \<open>Write\<close> at the cursor, or \<open>WriteAt\<close> at the offset \<open>off\<close>, never
  shortens the record's data, and every byte that existed before the call at an index
  below the position, or at or beyond the position plus the number of bytes given, keeps
  its value.
\<close>

theorem C10_write_frame:
  "(Write st h b = Return ((n, None), st', h') \<and> mfile h = Some a \<and> reader_ok (reader h)
      \<and> i < length (Data (store st a)) \<and> (int i < rd_i (reader h) \<or> rd_i (reader h) + int (length b) \<le> int i)
     \<longrightarrow> length (Data (store st a)) \<le> length (Data (store st' a))
         \<and> Data (store st' a) ! i = Data (store st a) ! i)
   \<and> (WriteAt st2 h2 b2 off = Return ((n2, None), st2', h2') \<and> mfile h2 = Some a2
      \<and> j < length (Data (store st2 a2)) \<and> (int j < off \<or> off + int (length b2) \<le> int j)
     \<longrightarrow> length (Data (store st2 a2)) \<le> length (Data (store st2' a2))
         \<and> Data (store st2' a2) ! j = Data (store st2 a2) ! j)"
proof (intro conjI impI)
  assume A: "Write st h b = Return ((n, None), st', h') \<and> mfile h = Some a \<and> reader_ok (reader h)
      \<and> i < length (Data (store st a)) \<and> (int i < rd_i (reader h) \<or> rd_i (reader h) + int (length b) \<le> int i)"
  then obtain h1 where w: "write_at st h (rd_i (reader h)) b = Return (n, st', h1)"
    using Write_Return by blast
  from A have m: "mfile h = Some a" by simp
  from A have "0 \<le> rd_i (reader h)" by (simp add: reader_ok_def)
  with A have out: "i < nat (rd_i (reader h)) \<or> nat (rd_i (reader h)) + length b \<le> i" by linarith
  from A have i: "i < length (Data (store st a))" by simp
  show "length (Data (store st a)) \<le> length (Data (store st' a))"
    by (rule write_at_frame(1) [OF w m])
  show "Data (store st' a) ! i = Data (store st a) ! i"
    by (rule write_at_frame(2) [OF w m i out])
next
  assume A: "WriteAt st2 h2 b2 off = Return ((n2, None), st2', h2') \<and> mfile h2 = Some a2
      \<and> j < length (Data (store st2 a2)) \<and> (int j < off \<or> off + int (length b2) \<le> int j)"
  then have w: "write_at st2 h2 off b2 = Return (n2, st2', h2')"
    using WriteAt_Return by blast
  from A have m: "mfile h2 = Some a2" by simp
  have "0 \<le> off" by (rule write_at_Return(1) [OF w m])
  with A have out: "j < nat off \<or> nat off + length b2 \<le> j" by linarith
  from A have j: "j < length (Data (store st2 a2))" by simp
  show "length (Data (store st2 a2)) \<le> length (Data (store st2' a2))"
    by (rule write_at_frame(1) [OF w m])
  show "Data (store st2' a2) ! j = Data (store st2 a2) ! j"
    by (rule write_at_frame(2) [OF w m j out])
qed

theorem C10_witness:
  "Write hi_fs (hi_handle O_RDWR) [0x58]
     = Return ((1, None), hi_fs_with [0x58, 0x69],
               (hi_handle O_RDWR)\<lparr>reader := \<lparr>rd_s = [0x58, 0x69], rd_i = 1\<rparr>\<rparr>)
   \<and> Data (store (hi_fs_with [0x58, 0x69]) 0) ! 1 = Data (store hi_fs 0) ! 1
   \<and> WriteAt hi_fs (hi_handle O_RDWR) [0x58] 1
     = Return ((1, None), hi_fs_with [0x48, 0x58],
               (hi_handle O_RDWR)\<lparr>reader := \<lparr>rd_s = [0x48, 0x58], rd_i = 0\<rparr>\<rparr>)
   \<and> Data (store (hi_fs_with [0x48, 0x58]) 0) ! 0 = Data (store hi_fs 0) ! 0"
  using Write_hi_X WriteAt_hi_1
    C10_write_frame [where st = hi_fs and h = "hi_handle O_RDWR" and b = "[0x58]" and n = 1
      and st' = "hi_fs_with [0x58, 0x69]"
      and h' = "(hi_handle O_RDWR)\<lparr>reader := \<lparr>rd_s = [0x58, 0x69], rd_i = 1\<rparr>\<rparr>"
      and a = 0 and i = 1
      and ?st2.0 = hi_fs and ?h2.0 = "hi_handle O_RDWR" and ?b2.0 = "[0x58]" and off = 1
      and ?n2.0 = 1 and st2' = "hi_fs_with [0x48, 0x58]"
      and h2' = "(hi_handle O_RDWR)\<lparr>reader := \<lparr>rd_s = [0x48, 0x58], rd_i = 0\<rparr>\<rparr>"
      and ?a2.0 = 0 and j = 0]
  by (simp add: hi_handle_fields reader_ok_def hi_fs_Data)









lemma Open_hi: "Open hi_fs ''testfile'' = Inr (openMapFile ''testfile'' 0)"
  by (simp add: fs_defs path_defs open_defs)

lemma OpenFile_hi:
  "OpenFile hi_fs ''testfile'' flg prm =
     (case (if flg AND O_TRUNC \<noteq> 0 then Truncate hi_fs (hi_handle flg) 0
            else Return (None, hi_fs, hi_handle flg)) of
        Panic \<Rightarrow> Panic
      | Return (err, f2, h2) \<Rightarrow>
          Return (Inr (if flg AND O_APPEND \<noteq> 0 then snd (Seek h2 0 SeekEnd) else h2), f2))"
proof -
  have oc: "open_or_create hi_fs ''testfile'' flg prm = (Inr (openMapFile ''testfile'' 0), hi_fs)"
    by (simp add: open_or_create_def Open_hi)
  have nh: "new_handle hi_fs ''testfile'' flg (openMapFile ''testfile'' 0) = hi_handle flg"
    by (simp add: new_handle_def fs_defs index_map_def mapFileInfo_def NewReader_def)
  have nd: "\<not> info_IsDir (mapFileInfo (store hi_fs 0))"
    by (simp add: fs_defs mapFileInfo_def ModeDir_def)
  show ?thesis by (simp add: OpenFile_def oc nh nd)
qed

lemma Truncate_hi_negative:
  "Truncate (hi_fs_with d) (hi_handle O_RDWR) (- 1) = Return (None, hi_fs_with d, hi_handle O_RDWR)"
  by (simp add: Truncate_def hi_handle_fields not_IsDir_0 rdwr_writes)

text \<open>
  C4. The claim as stated fails for a truncation to a negative size, which returns
  without touching the handle: two handles are opened on \<open>testfile\<close> (both are the value
  \<open>hi_handle O_RDWR\<close>), three bytes are written through one of them, and
  \<^verbatim>\<open>Truncate(-1)\<close> on the other succeeds and leaves its reader on the old two bytes
  while the record holds the new three.
\<close>

theorem C4_counterexample:
  "OpenFile hi_fs ''testfile'' O_RDWR 0 = Return (Inr (hi_handle O_RDWR), hi_fs)
   \<and> Write hi_fs (hi_handle O_RDWR) [0x58, 0x59, 0x5A]
       = Return ((3, None), hi_fs_with [0x58, 0x59, 0x5A],
                 (hi_handle O_RDWR)\<lparr>reader := \<lparr>rd_s = [0x58, 0x59, 0x5A], rd_i = 3\<rparr>\<rparr>)
   \<and> Truncate (hi_fs_with [0x58, 0x59, 0x5A]) (hi_handle O_RDWR) (- 1)
       = Return (None, hi_fs_with [0x58, 0x59, 0x5A], hi_handle O_RDWR)
   \<and> rd_s (reader (hi_handle O_RDWR)) = [0x48, 0x69]
   \<and> Data (store (hi_fs_with [0x58, 0x59, 0x5A]) 0) = [0x58, 0x59, 0x5A]"
proof -
  have "OpenFile hi_fs ''testfile'' O_RDWR 0 = Return (Inr (hi_handle O_RDWR), hi_fs)"
    by (simp add: OpenFile_hi) (simp add: flag_defs)
  then show ?thesis
    by (simp add: Write_hi_XYZ Truncate_hi_negative hi_handle_fields hi_fs_Data)
qed


lemma Truncate_Return:
  assumes "Truncate st h sz = Return (None, st', h')" "mfile h = Some a" "0 \<le> sz"
  shows "reset st' h = Return h'"
proof -
  have guard: "\<not> (IsDir (fperm h) \<or> fflag h AND (O_WRONLY OR O_RDWR) = 0)"
    using assms(1) by (auto simp: Truncate_def)
  show ?thesis
    using assms guard by (auto simp: Truncate_def Let_def split: result.splits)
qed

lemma wrap64_range: "- (2 ^ 63) \<le> wrap64 x \<and> wrap64 x < 2 ^ 63"
proof -
  have "0 \<le> (x + 2 ^ 63) mod 2 ^ 64" "(x + 2 ^ 63) mod 2 ^ 64 < (2 ^ 64 :: int)"
    by simp_all
  then show ?thesis by (simp add: wrap64_def)
qed

lemma grow_length: "slice_ok d \<Longrightarrow> int (length (grow d (wrap64 e))) < 2 ^ 63"
  using wrap64_range [of e] by (auto simp: grow_def slice_ok_def)

lemma Write_cursor:
  assumes ok: "Write st h b = Return ((n, None), st', h')"
    and m: "mfile h = Some a"
    and cur: "reader_ok (reader h)"
    and sl: "slice_ok (Data (store st a))"
  shows "rd_s (reader h') = Data (store st' a) \<and> rd_i (reader h') = rd_i (reader h) + int n"
proof -
  let ?pos = "rd_i (reader h)"
  let ?d1 = "grow (Data (store st a)) (wrap64 (?pos + int (length b)))"
  obtain h1 where w: "write_at st h ?pos b = Return (n, st', h1)"
    and h': "h' = h1\<lparr>reader := snd (Reader_Seek (reader h1) (int n) SeekCurrent)\<rparr>"
    using Write_Return [OF ok cur] by blast
  note r = write_at_Return [OF w m]
  have buf: "rd_s (reader h1) = Data (store st' a)" by (rule reset_buffer [OF r(5) m])
  have pos1: "rd_i (reader h1) = ?pos" by (rule reset_cursor [OF r(5) m cur])
  have "int n \<le> int (length ?d1) - ?pos"
    using r(1,2) by (simp add: r(3) copy_at_count)
  then have "?pos + int n \<le> int (length ?d1)" by simp
  then have hi: "?pos + int n < 2 ^ 63" using grow_length [OF sl, of "?pos + int (length b)"] by linarith
  have lo: "0 \<le> ?pos + int n" using r(1) by simp
  have seek: "Reader_Seek (reader h1) (int n) SeekCurrent
                = ((?pos + int n, None), (reader h1)\<lparr>rd_i := ?pos + int n\<rparr>)"
    using lo hi by (simp add: Reader_Seek_def whence_defs pos1 wrap64_id Let_def)
  show ?thesis by (simp add: h' seek buf)
qed

text \<open>
  C4, amended. After every successful \<open>Write\<close>, \<open>WriteAt\<close>, or \<open>Truncate\<close> to a
  non-negative size, the reader of the handle holds the data of the record behind it;
  the resynchronisation \<open>reset\<close> keeps the cursor, so that \<open>WriteAt\<close> and \<open>Truncate\<close>
  leave it where it was and \<open>Write\<close> advances it by the number of bytes written. The
  cursor is an \<^verbatim>\<open>int64\<close> that is not negative and the length of the data is an
  \<^verbatim>\<open>int\<close>, as they are for every handle.
\<close>

theorem C4_resync:
  assumes m: "mfile h = Some a"
    and cur: "reader_ok (reader h)"
    and sl: "slice_ok (Data (store st a))"
  shows "(Write st h b = Return ((n, None), st', h')
            \<longrightarrow> rd_s (reader h') = Data (store st' a) \<and> rd_i (reader h') = rd_i (reader h) + int n)
       \<and> (WriteAt st h b off = Return ((n, None), st', h')
            \<longrightarrow> rd_s (reader h') = Data (store st' a) \<and> rd_i (reader h') = rd_i (reader h))
       \<and> (0 \<le> sz \<and> Truncate st h sz = Return (None, st', h')
            \<longrightarrow> rd_s (reader h') = Data (store st' a) \<and> rd_i (reader h') = rd_i (reader h))
       \<and> (reset st h = Return h'
            \<longrightarrow> rd_s (reader h') = Data (store st a) \<and> rd_i (reader h') = rd_i (reader h))"
proof (intro conjI impI)
  assume "Write st h b = Return ((n, None), st', h')"
  from Write_cursor [OF this m cur sl]
  show "rd_s (reader h') = Data (store st' a)" "rd_i (reader h') = rd_i (reader h) + int n"
    by simp_all
next
  assume "WriteAt st h b off = Return ((n, None), st', h')"
  then have "write_at st h off b = Return (n, st', h')" by (rule WriteAt_Return)
  then have r: "reset st' h = Return h'" using m by (rule write_at_Return(5))
  show "rd_s (reader h') = Data (store st' a)" by (rule reset_buffer [OF r m])
  show "rd_i (reader h') = rd_i (reader h)" by (rule reset_cursor [OF r m cur])
next
  assume "0 \<le> sz \<and> Truncate st h sz = Return (None, st', h')"
  then have r: "reset st' h = Return h'" using Truncate_Return m by blast
  show "rd_s (reader h') = Data (store st' a)" by (rule reset_buffer [OF r m])
  show "rd_i (reader h') = rd_i (reader h)" by (rule reset_cursor [OF r m cur])
next
  assume r: "reset st h = Return h'"
  show "rd_s (reader h') = Data (store st a)" by (rule reset_buffer [OF r m])
  show "rd_i (reader h') = rd_i (reader h)" by (rule reset_cursor [OF r m cur])
qed


lemma Truncate_hi_1:
  "Truncate hi_fs (hi_handle O_RDWR) 1
     = Return (None, hi_fs_with [0x48], (hi_handle O_RDWR)\<lparr>reader := \<lparr>rd_s = [0x48], rd_i = 0\<rparr>\<rparr>)"
  by (simp add: Truncate_def hi_handle_fields not_IsDir_0 rdwr_writes hi_fs_Data set_Data_hi_fs
      reset_hi Let_def)

lemma slice_ok_hi: "slice_ok (Data (store hi_fs 0))" "slice_ok (Data (store (hi_fs_with [0x58]) 0))"
  by (simp_all add: slice_ok_def hi_fs_Data)

theorem C4_witness:
  "mfile (hi_handle O_RDWR) = Some 0 \<and> reader_ok (reader (hi_handle O_RDWR))
   \<and> slice_ok (Data (store hi_fs 0))
   \<and> Write hi_fs (hi_handle O_RDWR) [0x58, 0x59, 0x5A]
       = Return ((3, None), hi_fs_with [0x58, 0x59, 0x5A],
                 (hi_handle O_RDWR)\<lparr>reader := \<lparr>rd_s = [0x58, 0x59, 0x5A], rd_i = 3\<rparr>\<rparr>)
   \<and> Data (store (hi_fs_with [0x58, 0x59, 0x5A]) 0) = [0x58, 0x59, 0x5A]
   \<and> WriteAt hi_fs (hi_handle O_RDWR) [0x58] 5
       = Return ((1, None), hi_fs_with [0x48, 0x69, 0, 0, 0, 0x58],
                 (hi_handle O_RDWR)\<lparr>reader := \<lparr>rd_s = [0x48, 0x69, 0, 0, 0, 0x58], rd_i = 0\<rparr>\<rparr>)
   \<and> Data (store (hi_fs_with [0x48, 0x69, 0, 0, 0, 0x58]) 0) = [0x48, 0x69, 0, 0, 0, 0x58]
   \<and> Truncate hi_fs (hi_handle O_RDWR) 1
       = Return (None, hi_fs_with [0x48], (hi_handle O_RDWR)\<lparr>reader := \<lparr>rd_s = [0x48], rd_i = 0\<rparr>\<rparr>)
   \<and> Data (store (hi_fs_with [0x48]) 0) = [0x48]
   \<and> reset (hi_fs_with [0x58]) (hi_handle O_RDWR)
       = Return ((hi_handle O_RDWR)\<lparr>reader := \<lparr>rd_s = [0x58], rd_i = 0\<rparr>\<rparr>)"
  using Write_hi_XYZ WriteAt_hi_5 Truncate_hi_1 reset_hi [of "[0x58]" O_RDWR]
    C4_resync [where st = hi_fs and h = "hi_handle O_RDWR" and a = 0
      and b = "[0x58, 0x59, 0x5A]" and n = 3 and st' = "hi_fs_with [0x58, 0x59, 0x5A]"
      and h' = "(hi_handle O_RDWR)\<lparr>reader := \<lparr>rd_s = [0x58, 0x59, 0x5A], rd_i = 3\<rparr>\<rparr>"]
    C4_resync [where st = hi_fs and h = "hi_handle O_RDWR" and a = 0
      and b = "[0x58]" and off = 5 and n = 1 and st' = "hi_fs_with [0x48, 0x69, 0, 0, 0, 0x58]"
      and h' = "(hi_handle O_RDWR)\<lparr>reader := \<lparr>rd_s = [0x48, 0x69, 0, 0, 0, 0x58], rd_i = 0\<rparr>\<rparr>"]
    C4_resync [where st = hi_fs and h = "hi_handle O_RDWR" and a = 0
      and sz = 1 and st' = "hi_fs_with [0x48]"
      and h' = "(hi_handle O_RDWR)\<lparr>reader := \<lparr>rd_s = [0x48], rd_i = 0\<rparr>\<rparr>"]
    C4_resync [where st = "hi_fs_with [0x58]" and h = "hi_handle O_RDWR" and a = 0
      and h' = "(hi_handle O_RDWR)\<lparr>reader := \<lparr>rd_s = [0x58], rd_i = 0\<rparr>\<rparr>"]
  by (simp add: hi_handle_fields reader_ok_def hi_fs_Data slice_ok_def)


section \<open>Opening files\<close>

lemma open_dir_Inl: "open_dir f name p = Inl e \<Longrightarrow> e = PathError ''open'' name ErrNotExist"
  by (simp add: open_dir_def Let_def split: if_splits)

lemma open_dir_Inr: "open_dir f name p = Inr x \<Longrightarrow> \<exists>es. x = mapDir name p es"
  by (auto simp: open_dir_def Let_def split: if_splits)

lemma Open_Inl: "Open f name = Inl e \<Longrightarrow> e = PathError ''open'' name ErrNotExist"
  by (auto simp: Open_def split: if_splits option.splits dest: open_dir_Inl)

lemma Open_file:
  "Open f name = Inr (openMapFile n a) \<Longrightarrow>
     n = name \<and> index_map (MapFS f) name = Some a \<and> Mode (store f a) AND ModeDir = 0"
  by (auto simp: Open_def split: if_splits option.splits dest: open_dir_Inr)

lemma Open_dir:
  "Open f name = Inr (mapDir n p es) \<Longrightarrow>
     n = name \<and> p = index_map (MapFS f) name \<and> info_IsDir (file_Stat f (mapDir n p es))"
  by (cases p)
    (auto simp: Open_def mapFileInfo_def implied_dir_def ModeDir_def
      split: if_splits option.splits dest: open_dir_Inr)

lemma open_or_create_Inr:
  "open_or_create f name flg prm = (Inr file, f1) \<Longrightarrow> Open f1 name = Inr file"
  by (auto simp: open_or_create_def Let_def split: sum.splits if_splits)

lemma open_or_create_Inl:
  "open_or_create f name flg prm = (Inl e, f1) \<Longrightarrow> e = PathError ''open'' name ErrNotExist"
  by (auto simp: open_or_create_def Let_def split: sum.splits if_splits dest: Open_Inl)

lemma Seek_keeps:
  "mfile (snd (Seek h offset whence)) = mfile h \<and> rd_s (reader (snd (Seek h offset whence))) = rd_s (reader h)"
  by (auto simp: Seek_def Reader_Seek_def Let_def split: prod.splits option.splits)


lemma OpenFile_Return_Inr:
  assumes "OpenFile f name flg prm = Return (Inr h, f')"
  obtains fl f1 err h2 where
    "open_or_create f name flg prm = (Inr fl, f1)"
    "\<not> (info_IsDir (file_Stat f1 fl) \<and> flg AND (O_WRONLY OR O_RDWR) \<noteq> 0)"
    "(if flg AND O_TRUNC \<noteq> 0 then Truncate f1 (new_handle f1 name flg fl) 0
      else Return (None, f1, new_handle f1 name flg fl)) = Return (err, f', h2)"
    "h = (if flg AND O_APPEND \<noteq> 0 then snd (Seek h2 0 SeekEnd) else h2)"
proof -
  obtain r f1 where oc: "open_or_create f name flg prm = (r, f1)" by (cases "open_or_create f name flg prm")
  show ?thesis
  proof (cases r)
    case (Inl e)
    then show ?thesis using assms oc by (simp add: OpenFile_def)
  next
    case (Inr fl)
    have nd: "\<not> (info_IsDir (file_Stat f1 fl) \<and> flg AND (O_WRONLY OR O_RDWR) \<noteq> 0)"
      using assms oc Inr by (auto simp: OpenFile_def split: if_splits)
    let ?t = "(if flg AND O_TRUNC \<noteq> 0 then Truncate f1 (new_handle f1 name flg fl) 0
      else Return (None, f1, new_handle f1 name flg fl))"
    have unf: "OpenFile f name flg prm
          = (case ?t of Panic \<Rightarrow> Panic
            | Return (err, f2, h2) \<Rightarrow>
                Return (Inr (if flg AND O_APPEND \<noteq> 0 then snd (Seek h2 0 SeekEnd) else h2), f2))"
      unfolding OpenFile_def oc Inr by (simp only: prod.case sum.case if_not_P [OF nd])
    note eq = assms [unfolded unf]
    from eq obtain err h2 where t: "?t = Return (err, f', h2)"
      and h: "h = (if flg AND O_APPEND \<noteq> 0 then snd (Seek h2 0 SeekEnd) else h2)"
      by (cases ?t) (auto split: prod.splits)
    show ?thesis using that [OF _ nd t h] oc Inr by simp
  qed
qed

lemma below_empty: "\<not> implied m P \<Longrightarrow> below m P = []"
  by (auto simp: implied_def below_def filter_empty_conv)

lemma Open_missing:
  assumes "ValidPath P" "P \<noteq> ''.''" "index_map (MapFS f) P = None" "\<not> implied (MapFS f) P"
  shows "Open f P = Inl (PathError ''open'' P ErrNotExist)"
  using assms by (simp add: Open_def open_dir_def dir_list_def dir_need_def below_empty)

lemma put_new_fields:
  "index_map (MapFS (put_new f name r)) name = Some (fresh f)"
  "store (put_new f name r) (fresh f) = r"
  by (simp_all add: put_new_def new_MapFile_def index_map_def update_conv')

lemma Open_put_new:
  assumes "ValidPath P" "Mode r AND ModeDir = 0"
  shows "Open (put_new f P r) P = Inr (openMapFile P (fresh f))"
  using assms by (simp add: Open_def put_new_fields)

lemma set_Data_same: "Data (store st a) = d \<Longrightarrow> set_Data st a d = st"
  by (auto simp: set_Data_def)

lemma Truncate_empty:
  assumes m: "mfile h = Some a" and d: "Data (store st a) = []"
  shows "\<exists>err h'. Truncate st h 0 = Return (err, st, h') \<and> mfile h' = Some a"
proof (cases "IsDir (fperm h) \<or> fflag h AND (O_WRONLY OR O_RDWR) = 0")
  case True
  then show ?thesis using m by (simp add: Truncate_def)
next
  case False
  obtain h' where r: "reset st h = Return h'"
    using m by (simp add: reset_Some)
  have "Truncate st h 0 = Return (None, st, h')"
    using False by (simp add: Truncate_def m d set_Data_same r)
  moreover have "mfile h' = Some a" using reset_fields [OF r] m by simp
  ultimately show ?thesis by blast
qed

text \<open>
  C1. The claim as stated fails for a path that has no record of its own but lies above
  one: in the table with the single file \<open>d/f\<close> the path \<open>d\<close> has no record, and opening
  it read-only succeeds with a handle on the implied directory \<open>d\<close> (mode
  \<^verbatim>\<open>fs.ModeDir | 0555\<close>, hexadecimal 8000016D).
\<close>

theorem C1_counterexample:
  "index_map (MapFS tree_fs) ''d'' = None
   \<and> \<not> has_key (MapFS tree_fs) ''d''
   \<and> OpenFile tree_fs ''d'' O_RDONLY 0
       = Return (Inr \<lparr>fsFile = mapDir ''d'' None [''f''], mfile = None, fname = ''d'',
                       fflag = O_RDONLY, fperm = 0x8000016D,
                       reader = \<lparr>rd_s = [], rd_i = 0\<rparr>\<rparr>, tree_fs)"
proof -
  have op: "Open tree_fs ''d'' = Inr (mapDir ''d'' None [''f''])"
    by (simp add: fs_defs path_defs open_defs)
  have oc: "open_or_create tree_fs ''d'' O_RDONLY 0 = (Inr (mapDir ''d'' None [''f'']), tree_fs)"
    by (simp add: open_or_create_def op)
  have nh: "new_handle tree_fs ''d'' O_RDONLY (mapDir ''d'' None [''f''])
      = \<lparr>fsFile = mapDir ''d'' None [''f''], mfile = None, fname = ''d'',
         fflag = O_RDONLY, fperm = 0x8000016D, reader = \<lparr>rd_s = [], rd_i = 0\<rparr>\<rparr>"
    by (simp add: new_handle_def fs_defs index_map_def mapFileInfo_def implied_dir_def
        ModeDir_def NewReader_def)
  have "OpenFile tree_fs ''d'' O_RDONLY 0
       = Return (Inr \<lparr>fsFile = mapDir ''d'' None [''f''], mfile = None, fname = ''d'',
                       fflag = O_RDONLY, fperm = 0x8000016D,
                       reader = \<lparr>rd_s = [], rd_i = 0\<rparr>\<rparr>, tree_fs)"
    by (simp add: OpenFile_def oc nh) (simp add: flag_defs)
  then show ?thesis by (simp add: tree_fs_def index_map_def has_key_def)
qed

text \<open>
  C1, amended. For every valid path \<open>P\<close> other than the root that has no record and no
  record below it, \<open>OpenFile P\<close> read-only fails with the path error \<open>open P: not exist\<close>
  and leaves the file system as it was; and with \<^verbatim>\<open>O_CREATE\<close> among the flags and a
  permission \<open>perm\<close> without the directory bit it succeeds, the table then has at \<open>P\<close> a
  new record with empty data and mode \<open>perm\<close> (so the directory flag is off), the handle
  refers to that record, and \<open>Stat P\<close> reports the mode \<open>perm\<close>.
\<close>

theorem C1_open_missing:
  assumes valid: "ValidPath P" and notroot: "P \<noteq> ''.''"
    and norec: "index_map (MapFS f) P = None"
    and nobelow: "\<not> implied (MapFS f) P"
  shows "OpenFile f P O_RDONLY prm = Return (Inl (PathError ''open'' P ErrNotExist), f)
       \<and> (flg AND O_CREATE \<noteq> 0 \<and> \<not> IsDir prm \<longrightarrow>
            (\<exists>h f'. OpenFile f P flg prm = Return (Inr h, f')
               \<and> mfile h = Some (fresh f)
               \<and> index_map (MapFS f') P = Some (fresh f)
               \<and> store f' (fresh f) = \<lparr>Data = [], Mode = prm, ModTime = 0\<rparr>
               \<and> Stat f' P = Inr \<lparr>info_Size = 0, info_Mode = prm, info_ModTime = 0,
                                   info_IsDir = False\<rparr>))"
proof (intro conjI impI)
  have miss: "Open f P = Inl (PathError ''open'' P ErrNotExist)"
    by (rule Open_missing [OF valid notroot norec nobelow])
  show "OpenFile f P O_RDONLY prm = Return (Inl (PathError ''open'' P ErrNotExist), f)"
    by (simp add: OpenFile_def open_or_create_def miss flag_defs)
  assume A: "flg AND O_CREATE \<noteq> 0 \<and> \<not> IsDir prm"
  let ?r = "\<lparr>Data = [], Mode = prm, ModTime = 0\<rparr>"
  let ?f1 = "put_new f P ?r"
  let ?a = "fresh f"
  let ?fl = "openMapFile P ?a"
  let ?h0 = "new_handle ?f1 P flg ?fl"
  have mode: "Mode ?r AND ModeDir = 0" using A by (simp add: IsDir_def)
  have op1: "Open ?f1 P = Inr ?fl" by (rule Open_put_new [OF valid mode])
  have oc: "open_or_create f P flg prm = (Inr ?fl, ?f1)"
    using A by (simp add: open_or_create_def miss op1 Let_def)
  have rec: "store ?f1 ?a = ?r" by (rule put_new_fields)
  have idx: "index_map (MapFS ?f1) P = Some ?a" by (rule put_new_fields)
  have nd: "\<not> (info_IsDir (file_Stat ?f1 ?fl) \<and> flg AND (O_WRONLY OR O_RDWR) \<noteq> 0)"
    using mode by (simp add: rec mapFileInfo_def)
  have m0: "mfile ?h0 = Some ?a" by (simp add: new_handle_def idx)
  have d0: "Data (store ?f1 ?a) = []" by (simp add: rec)
  let ?t = "(if flg AND O_TRUNC \<noteq> 0 then Truncate ?f1 ?h0 0 else Return (None, ?f1, ?h0))"
  obtain err h2 where t: "?t = Return (err, ?f1, h2)" and m2: "mfile h2 = Some ?a"
    using Truncate_empty [OF m0 d0] m0 by (cases "flg AND O_TRUNC \<noteq> 0") auto
  let ?h = "(if flg AND O_APPEND \<noteq> 0 then snd (Seek h2 0 SeekEnd) else h2)"
  have res: "OpenFile f P flg prm = Return (Inr ?h, ?f1)"
    unfolding OpenFile_def oc by (simp only: prod.case sum.case if_not_P [OF nd] t result.case)
  have mh: "mfile ?h = Some ?a" using m2 Seek_keeps [of h2 0 SeekEnd] by simp
  have st: "Stat ?f1 P = Inr \<lparr>info_Size = 0, info_Mode = prm, info_ModTime = 0,
                                   info_IsDir = False\<rparr>"
    using mode by (simp add: Stat_def op1 rec mapFileInfo_def)
  show "\<exists>h f'. OpenFile f P flg prm = Return (Inr h, f')
               \<and> mfile h = Some (fresh f)
               \<and> index_map (MapFS f') P = Some (fresh f)
               \<and> store f' (fresh f) = \<lparr>Data = [], Mode = prm, ModTime = 0\<rparr>
               \<and> Stat f' P = Inr \<lparr>info_Size = 0, info_Mode = prm, info_ModTime = 0,
                                   info_IsDir = False\<rparr>"
    using res mh idx rec st by blast
qed


lemma missingfile_hyps:
  "ValidPath ''missingfile''" "''missingfile'' \<noteq> ''.''"
  "index_map (MapFS empty_fs) ''missingfile'' = None" "\<not> implied (MapFS empty_fs) ''missingfile''"
  "(O_WRONLY OR O_CREATE) AND O_CREATE \<noteq> 0" "\<not> IsDir 0x1FF" "fresh empty_fs = 0"
  by (simp_all add: path_defs empty_fs_def index_map_def implied_def flag_defs IsDir_def ModeDir_def)

theorem C1_witness:
  "ValidPath ''missingfile'' \<and> ''missingfile'' \<noteq> ''.''
   \<and> index_map (MapFS empty_fs) ''missingfile'' = None
   \<and> \<not> implied (MapFS empty_fs) ''missingfile''
   \<and> OpenFile empty_fs ''missingfile'' O_RDONLY 0x1FF
       = Return (Inl (PathError ''open'' ''missingfile'' ErrNotExist), empty_fs)
   \<and> (O_WRONLY OR O_CREATE) AND O_CREATE \<noteq> 0 \<and> \<not> IsDir 0x1FF
   \<and> (\<exists>h f'. OpenFile empty_fs ''missingfile'' (O_WRONLY OR O_CREATE) 0x1FF = Return (Inr h, f')
          \<and> mfile h = Some 0
          \<and> index_map (MapFS f') ''missingfile'' = Some 0
          \<and> store f' 0 = \<lparr>Data = [], Mode = 0x1FF, ModTime = 0\<rparr>
          \<and> Stat f' ''missingfile''
              = Inr \<lparr>info_Size = 0, info_Mode = 0x1FF, info_ModTime = 0, info_IsDir = False\<rparr>)"
  using missingfile_hyps
    C1_open_missing [where P = "''missingfile''" and f = empty_fs and prm = "0x1FF"
      and flg = "O_WRONLY OR O_CREATE"]
  by simp

text \<open>
  C3. The claim as stated fails for the read-only access mode: \<open>OpenFile\<close> truncates
  through \<open>Truncate\<close>, which refuses a handle without write access, and drops its error.
  Opening \<open>testfile\<close> with \<^verbatim>\<open>O_RDONLY|O_TRUNC\<close> succeeds and the record still holds
  its two bytes.
\<close>

theorem C3_counterexample:
  "OpenFile hi_fs ''testfile'' (O_RDONLY OR O_TRUNC) 0
     = Return (Inr (hi_handle (O_RDONLY OR O_TRUNC)), hi_fs)
   \<and> (O_RDONLY OR O_TRUNC) AND O_TRUNC \<noteq> 0
   \<and> mfile (hi_handle (O_RDONLY OR O_TRUNC)) = Some 0
   \<and> index_map (MapFS hi_fs) ''testfile'' = Some 0
   \<and> Data (store hi_fs 0) = [0x48, 0x69]"
proof -
  have t: "Truncate hi_fs (hi_handle (O_RDONLY OR O_TRUNC)) 0
        = Return (Some (PathError ''truncate'' ''testfile'' EINVAL), hi_fs, hi_handle (O_RDONLY OR O_TRUNC))"
    by (simp add: Truncate_def hi_handle_fields not_IsDir_0) (simp add: flag_defs)
  have "OpenFile hi_fs ''testfile'' (O_RDONLY OR O_TRUNC) 0
     = Return (Inr (hi_handle (O_RDONLY OR O_TRUNC)), hi_fs)"
    by (simp add: OpenFile_hi t) (simp add: flag_defs)
  then show ?thesis
    by (simp add: hi_handle_fields hi_fs_Data) (simp add: flag_defs hi_fs_def index_map_def)
qed



text \<open>
  C3, amended. For every call of \<open>OpenFile\<close> whose flags include \<^verbatim>\<open>O_TRUNC\<close> and write
  access (\<^verbatim>\<open>O_WRONLY\<close> or \<^verbatim>\<open>O_RDWR\<close>) and that returns a handle, on an existing record
  or on one just created, the data of the record at the path, which is the record behind
  the handle, is empty when \<open>OpenFile\<close> returns, and so is the handle's read buffer.
\<close>

theorem C3_open_truncates:
  assumes ok: "OpenFile f name flg prm = Return (Inr h, f')"
    and trunc: "flg AND O_TRUNC \<noteq> 0"
    and wr: "flg AND (O_WRONLY OR O_RDWR) \<noteq> 0"
  shows "\<exists>a. mfile h = Some a \<and> index_map (MapFS f') name = Some a
           \<and> Data (store f' a) = [] \<and> rd_s (reader h) = []"
proof -
  from ok obtain fl f1 err h2 where
    oc: "open_or_create f name flg prm = (Inr fl, f1)"
    and nd: "\<not> (info_IsDir (file_Stat f1 fl) \<and> flg AND (O_WRONLY OR O_RDWR) \<noteq> 0)"
    and t: "(if flg AND O_TRUNC \<noteq> 0 then Truncate f1 (new_handle f1 name flg fl) 0
      else Return (None, f1, new_handle f1 name flg fl)) = Return (err, f', h2)"
    and h: "h = (if flg AND O_APPEND \<noteq> 0 then snd (Seek h2 0 SeekEnd) else h2)"
    by (rule OpenFile_Return_Inr)
  let ?h0 = "new_handle f1 name flg fl"
  have op: "Open f1 name = Inr fl" by (rule open_or_create_Inr [OF oc])
  have notdir: "\<not> info_IsDir (file_Stat f1 fl)" using nd wr by simp
  obtain a where fl: "fl = openMapFile name a"
    and idx: "index_map (MapFS f1) name = Some a"
    and mode: "Mode (store f1 a) AND ModeDir = 0"
  proof (cases fl)
    case (openMapFile n a)
    then have "Open f1 name = Inr (openMapFile n a)" using op by simp
    from Open_file [OF this] show ?thesis using that openMapFile by simp
  next
    case (mapDir n p es)
    then have "Open f1 name = Inr (mapDir n p es)" using op by simp
    from Open_dir [OF this] have "info_IsDir (file_Stat f1 fl)" using mapDir by auto
    with notdir show ?thesis by simp
  qed
  have m0: "mfile ?h0 = Some a" by (simp add: new_handle_def idx)
  have guard: "\<not> (IsDir (fperm ?h0) \<or> fflag ?h0 AND (O_WRONLY OR O_RDWR) = 0)"
    using mode wr by (simp add: new_handle_def fl mapFileInfo_def IsDir_def)
  have tr: "Truncate f1 ?h0 0 = Return (err, f', h2)" using t trunc by simp
  have f': "f' = set_Data f1 a []" and r: "reset f' ?h0 = Return h2"
    using tr guard m0 by (auto simp: Truncate_def Let_def split: result.splits)
  have d: "Data (store f' a) = []" by (simp add: f' store_set_Data)
  have tbl: "MapFS f' = MapFS f1" by (simp add: f' set_Data_def)
  have buf: "rd_s (reader h2) = []" using reset_buffer [OF r m0] d by simp
  have m2: "mfile h2 = Some a" using reset_fields [OF r] m0 by simp
  have "mfile h = Some a \<and> rd_s (reader h) = []"
    using h m2 buf Seek_keeps [of h2 0 SeekEnd] by (cases "flg AND O_APPEND \<noteq> 0") simp_all
  then show ?thesis using d idx tbl by simp
qed


lemma OpenFile_hi_wronly_trunc:
  "OpenFile hi_fs ''testfile'' (O_WRONLY OR O_TRUNC) 0
     = Return (Inr ((hi_handle (O_WRONLY OR O_TRUNC))\<lparr>reader := \<lparr>rd_s = [], rd_i = 0\<rparr>\<rparr>),
               hi_fs_with [])"
proof -
  have t: "Truncate hi_fs (hi_handle (O_WRONLY OR O_TRUNC)) 0
        = Return (None, hi_fs_with [],
            (hi_handle (O_WRONLY OR O_TRUNC))\<lparr>reader := \<lparr>rd_s = [], rd_i = 0\<rparr>\<rparr>)"
    by (simp add: Truncate_def hi_handle_fields not_IsDir_0 hi_fs_Data set_Data_hi_fs reset_hi
        Let_def) (simp add: flag_defs)
  show ?thesis by (simp add: OpenFile_hi t) (simp add: flag_defs)
qed

theorem C3_witness:
  "OpenFile hi_fs ''testfile'' (O_WRONLY OR O_TRUNC) 0
     = Return (Inr ((hi_handle (O_WRONLY OR O_TRUNC))\<lparr>reader := \<lparr>rd_s = [], rd_i = 0\<rparr>\<rparr>),
               hi_fs_with [])
   \<and> (O_WRONLY OR O_TRUNC) AND O_TRUNC \<noteq> 0
   \<and> (O_WRONLY OR O_TRUNC) AND (O_WRONLY OR O_RDWR) \<noteq> 0
   \<and> index_map (MapFS (hi_fs_with [])) ''testfile'' = Some 0
   \<and> Data (store (hi_fs_with []) 0) = []"
proof -
  have flags: "(O_WRONLY OR O_TRUNC) AND O_TRUNC \<noteq> 0"
    "(O_WRONLY OR O_TRUNC) AND (O_WRONLY OR O_RDWR) \<noteq> 0"
    by (simp_all add: flag_defs)
  show ?thesis
    using flags OpenFile_hi_wronly_trunc
      C3_open_truncates [OF OpenFile_hi_wronly_trunc flags]
    by (auto simp: hi_handle_fields)
qed

section \<open>The scope of errors\<close>

lemma OpenFile_Return_Inl:
  assumes "OpenFile f name flg prm = Return (Inl e, f')"
  shows "path_error ''open'' name e"
proof -
  obtain r f1 where oc: "open_or_create f name flg prm = (r, f1)" by (cases "open_or_create f name flg prm")
  show ?thesis
  proof (cases r)
    case (Inl e')
    then have "e = e'" using assms oc by (simp add: OpenFile_def)
    then show ?thesis using open_or_create_Inl [of f name flg prm e' f1] oc Inl
      by (simp add: path_error_def)
  next
    case (Inr fl)
    show ?thesis
    proof (cases "info_IsDir (file_Stat f1 fl) \<and> flg AND (O_WRONLY OR O_RDWR) \<noteq> 0")
      case True
      then show ?thesis using assms oc Inr by (auto simp: OpenFile_def path_error_def)
    next
      case False
      then show ?thesis using assms unfolding OpenFile_def oc Inr
        by (simp only: prod.case sum.case if_not_P [OF False]) (auto split: result.splits prod.splits)
    qed
  qed
qed

lemma Rename_error:
  "case fst (Rename ks f oldpath newpath) of None \<Rightarrow> True
   | Some e \<Rightarrow> link_error ''rename'' oldpath newpath e"
  by (simp add: Rename_def Let_def link_error_def split: sum.split option.split prod.split)

lemma Mkdir_error:
  "case fst (Mkdir now f name prm) of None \<Rightarrow> True | Some e \<Rightarrow> path_error ''mkdir'' name e"
  by (simp add: Mkdir_def Let_def path_error_def split: sum.split option.split)

lemma MkdirAll_error:
  "case fst (MkdirAll now f name prm) of None \<Rightarrow> True | Some e \<Rightarrow> path_error ''mkdir'' name e"
  by (simp add: MkdirAll_def Let_def path_error_def split: sum.split option.split)

lemma Stat_error:
  "case Stat f name of Inl e \<Rightarrow> path_error ''stat'' name e | Inr info \<Rightarrow> True"
  by (simp add: Stat_def path_error_def split: sum.split)

lemma Read_error:
  "case snd (fst (Read h n)) of None \<Rightarrow> True
   | Some e \<Rightarrow> path_error ''read'' (fname h) e \<or> e = EOF"
  by (simp add: Read_def Reader_Read_def Let_def path_error_def split_beta)

lemma ReadAt_error:
  "case snd (ReadAt h n off) of None \<Rightarrow> True
   | Some e \<Rightarrow> path_error ''read'' (fname h) e \<or> e = EOF"
  by (simp add: ReadAt_def Reader_ReadAt_def Let_def path_error_def)

lemma Seek_error:
  "case snd (fst (Seek h offset whence)) of None \<Rightarrow> True
   | Some e \<Rightarrow> path_error ''seek'' (fname h) e"
  by (simp add: Seek_def path_error_def split: prod.split option.split)

lemma Write_error:
  "Write st h b = Return ((n, Some e), st', h') \<Longrightarrow> path_error ''write'' (fname h) e"
  by (auto simp: Write_def path_error_def split_beta split: if_splits result.splits)

lemma WriteAt_error:
  "WriteAt st h b off = Return ((n, Some e), st', h') \<Longrightarrow> fflag h AND O_APPEND = 0 \<Longrightarrow>
     path_error ''write'' (fname h) e \<or> path_error ''writeat'' (fname h) e"
  by (auto simp: WriteAt_def path_error_def split: if_splits result.splits)

lemma Truncate_error:
  "Truncate st h sz = Return (Some e, st', h') \<Longrightarrow> path_error ''truncate'' (fname h) e"
  by (auto simp: Truncate_def path_error_def Let_def split: if_splits result.splits option.splits)

text \<open>
  \<open>Remove\<close> reports the literal path \<open>name\<close>, whatever path it was called with.
\<close>

lemma Remove_error_path:
  "fst (Remove f p) = None \<or> fst (Remove f p) = Some (PathError ''remove'' ''name'' ENOENT)
   \<or> fst (Remove f p) = Some (PathError ''remove'' ''name'' ENOTEMPTY)"
  by (simp add: Remove_def)

lemma Remove_missing_unscoped:
  "error_of (Call_Remove empty_fs ''a'') = Some (PathError ''remove'' ''name'' ENOENT)
   \<and> \<not> scoped (Call_Remove empty_fs ''a'') (PathError ''remove'' ''name'' ENOENT)"
  by (simp add: Remove_def empty_fs_def has_key_def path_error_def)

text \<open>
  C8. The claim as stated fails for \<open>WriteAt\<close> on a handle opened with \<^verbatim>\<open>O_APPEND\<close>: the
  error is a plain \<^verbatim>\<open>errors.New\<close> value, as it is in \<^verbatim>\<open>package os\<close>, and carries neither
  an operation name nor the path.
\<close>

theorem C8_counterexample:
  "OpenFile hi_fs ''testfile'' (O_WRONLY OR O_APPEND) 0
     = Return (Inr ((hi_handle (O_WRONLY OR O_APPEND))\<lparr>reader := \<lparr>rd_s = [0x48, 0x69], rd_i = 2\<rparr>\<rparr>), hi_fs)
   \<and> error_of (Call_WriteAt hi_fs ((hi_handle (O_WRONLY OR O_APPEND))\<lparr>reader := \<lparr>rd_s = [0x48, 0x69], rd_i = 2\<rparr>\<rparr>) [0x58] 0)
       = Some (ErrorString ''invalid use of WriteAt on file opened with O_APPEND'')
   \<and> \<not> scoped (Call_WriteAt hi_fs ((hi_handle (O_WRONLY OR O_APPEND))\<lparr>reader := \<lparr>rd_s = [0x48, 0x69], rd_i = 2\<rparr>\<rparr>) [0x58] 0)
         (ErrorString ''invalid use of WriteAt on file opened with O_APPEND'')"
proof -
  have sk: "snd (Seek (hi_handle (O_WRONLY OR O_APPEND)) 0 SeekEnd)
         = (hi_handle (O_WRONLY OR O_APPEND))\<lparr>reader := \<lparr>rd_s = [0x48, 0x69], rd_i = 2\<rparr>\<rparr>"
    by (simp add: Seek_def hi_handle_fields not_IsDir_0 Reader_Seek_def whence_defs wrap64_small)
  have "OpenFile hi_fs ''testfile'' (O_WRONLY OR O_APPEND) 0
     = Return (Inr ((hi_handle (O_WRONLY OR O_APPEND))\<lparr>reader := \<lparr>rd_s = [0x48, 0x69], rd_i = 2\<rparr>\<rparr>), hi_fs)"
    by (simp add: OpenFile_hi sk) (simp add: flag_defs)
  then show ?thesis
    by (simp add: WriteAt_def hi_handle_fields path_error_def) (simp add: flag_defs)
qed



text \<open>
  C8, amended. Every error returned by an operation other than \<open>Remove\<close>, and other than
  \<open>WriteAt\<close> on a handle opened with \<^verbatim>\<open>O_APPEND\<close>, is either the end-of-data signal of
  \<open>Read\<close> and \<open>ReadAt\<close>, or a path error carrying the name under which the operation
  reports (\<open>open\<close>, \<open>stat\<close>, \<open>mkdir\<close> also for \<open>MkdirAll\<close>, \<open>read\<close> also for \<open>ReadAt\<close>,
  \<open>seek\<close>, \<open>write\<close>, \<open>write\<close> or \<open>writeat\<close> for \<open>WriteAt\<close>, \<open>truncate\<close>) and the path of
  the call, for a handle the path it was opened with; for \<open>Rename\<close> it is a link error
  carrying \<open>rename\<close> and both paths.
\<close>

theorem C8_errors_scoped:
  assumes "error_of c = Some e" "\<not> unscoped_call c"
  shows "scoped c e \<or> (reads c \<and> e = EOF)"
proof (cases c)
  case (Call_OpenFile f name flg prm)
  then show ?thesis using assms OpenFile_Return_Inl [where f = f and name = name and flg = flg and prm = prm and e = e]
    by (auto split: result.splits sum.splits prod.splits)
next
  case (Call_Stat f name)
  then show ?thesis using assms Stat_error [where f = f and name = name] by (auto split: sum.splits)
next
  case (Call_Rename ks f oldpath newpath)
  then show ?thesis using assms Rename_error [where ks = ks and f = f and oldpath = oldpath and newpath = newpath] by simp
next
  case (Call_Remove f name)
  then show ?thesis using assms by simp
next
  case (Call_RemoveAll ks f path)
  then show ?thesis using assms by (simp add: RemoveAll_def)
next
  case (Call_Mkdir now f name prm)
  then show ?thesis using assms Mkdir_error [where now = now and f = f and name = name and prm = prm] by simp
next
  case (Call_MkdirAll now f name prm)
  then show ?thesis using assms MkdirAll_error [where now = now and f = f and name = name and prm = prm] by simp
next
  case (Call_Read h n)
  then show ?thesis using assms Read_error [where h = h and n = n] by auto
next
  case (Call_ReadAt h n off)
  then show ?thesis using assms ReadAt_error [where h = h and n = n and off = off] by auto
next
  case (Call_Seek h offset whence)
  then show ?thesis using assms Seek_error [where h = h and offset = offset and whence = whence] by simp
next
  case (Call_Write st h b)
  then show ?thesis using assms Write_error [where st = st and h = h and b = b and e = e]
    by (auto split: result.splits prod.splits)
next
  case (Call_WriteAt st h b off)
  then show ?thesis using assms WriteAt_error [where st = st and h = h and b = b and off = off and e = e]
    by (auto split: result.splits prod.splits)
next
  case (Call_Truncate st h sz)
  then show ?thesis using assms Truncate_error [where st = st and h = h and sz = sz and e = e]
    by (auto split: result.splits prod.splits)
qed


theorem C8_witness:
  "error_of (Call_Stat empty_fs ''missingfile'')
     = Some (PathError ''stat'' ''missingfile'' (PathError ''open'' ''missingfile'' ErrNotExist))
   \<and> \<not> unscoped_call (Call_Stat empty_fs ''missingfile'')
   \<and> scoped (Call_Stat empty_fs ''missingfile'')
        (PathError ''stat'' ''missingfile'' (PathError ''open'' ''missingfile'' ErrNotExist))"
proof -
  have e: "error_of (Call_Stat empty_fs ''missingfile'')
     = Some (PathError ''stat'' ''missingfile'' (PathError ''open'' ''missingfile'' ErrNotExist))"
    by (simp add: Stat_def Open_missing [OF missingfile_hyps(1-4)])
  have u: "\<not> unscoped_call (Call_Stat empty_fs ''missingfile'')" by simp
  show ?thesis using e u C8_errors_scoped [OF e u] by simp
qed


section \<open>Handles stay well formed\<close>

text \<open>
  \<open>OpenFile\<close> never panics, and the handle it returns has a cursor in range and, unless
  it is a directory, a record behind it; the operations keep that, and writing keeps the
  length of the data an \<^verbatim>\<open>int\<close>. These are the conditions under which the properties of
  \<open>Write\<close>, \<open>WriteAt\<close> and \<open>Truncate\<close> above are stated.
\<close>

lemma Reader_Seek_ok:
  assumes "reader_ok r" "offset < 2 ^ 63"
  shows "reader_ok (snd (Reader_Seek r offset whence))"
  using assms wrap64_range [of "rd_i r + offset"] wrap64_range [of "int (length (rd_s r)) + offset"]
  by (auto simp: Reader_Seek_def reader_ok_def Let_def)

lemma Seek_ok:
  assumes "reader_ok (reader h)" "offset < 2 ^ 63"
  shows "reader_ok (reader (snd (Seek h offset whence)))"
  using Reader_Seek_ok [OF assms, of whence]
  by (auto simp: Seek_def assms(1) split: prod.splits option.splits)

lemma Seek_fields:
  "mfile (snd (Seek h offset whence)) = mfile h \<and> fperm (snd (Seek h offset whence)) = fperm h
   \<and> fflag (snd (Seek h offset whence)) = fflag h \<and> fname (snd (Seek h offset whence)) = fname h"
  by (auto simp: Seek_def split: prod.splits option.splits)

lemma Truncate_returns:
  assumes "\<not> IsDir (fperm h) \<longrightarrow> mfile h \<noteq> None"
  shows "\<exists>r. Truncate st h sz = Return r"
proof (cases "IsDir (fperm h) \<or> fflag h AND (O_WRONLY OR O_RDWR) = 0 \<or> sz < 0")
  case True
  then show ?thesis by (auto simp: Truncate_def)
next
  case False
  then obtain a where m: "mfile h = Some a" using assms by auto
  show ?thesis using False by (simp add: Truncate_def m reset_Some Let_def)
qed

lemma Truncate_fields:
  assumes "Truncate st h sz = Return (err, st', h')"
  shows "mfile h' = mfile h \<and> fperm h' = fperm h \<and> fflag h' = fflag h \<and> fname h' = fname h
     \<and> (reader_ok (reader h) \<longrightarrow> reader_ok (reader h'))"
proof (cases "IsDir (fperm h) \<or> fflag h AND (O_WRONLY OR O_RDWR) = 0 \<or> sz < 0")
  case True
  then show ?thesis using assms by (auto simp: Truncate_def split: if_splits)
next
  case False
  show ?thesis
  proof (cases "mfile h")
    case None
    then show ?thesis using assms False by (simp add: Truncate_def)
  next
    case (Some a)
    obtain st'' where r: "reset st'' h = Return h'"
      using assms False by (auto simp: Truncate_def Some Let_def split: result.splits)
    show ?thesis using reset_fields [OF r] reset_cursor [OF r Some]
      by (auto simp: reader_ok_def)
  qed
qed

lemma OpenFile_returns: "\<exists>r. OpenFile f name flg prm = Return r"
proof -
  obtain r f1 where oc: "open_or_create f name flg prm = (r, f1)"
    by (cases "open_or_create f name flg prm")
  show ?thesis
  proof (cases r)
    case (Inl e)
    then show ?thesis using oc by (simp add: OpenFile_def)
  next
    case (Inr fl)
    have op: "Open f1 name = Inr fl" using open_or_create_Inr oc Inr by simp
    have inv: "\<not> IsDir (fperm (new_handle f1 name flg fl)) \<longrightarrow> mfile (new_handle f1 name flg fl) \<noteq> None"
    proof (cases fl)
      case (openMapFile n a)
      then show ?thesis using Open_file [of f1 name n a] op by (simp add: new_handle_def)
    next
      case (mapDir n p es)
      then have "info_IsDir (file_Stat f1 fl)" using Open_dir [of f1 name n p es] op by auto
      then have "IsDir (fperm (new_handle f1 name flg fl))"
        using mapDir by (cases p) (simp_all add: new_handle_def IsDir_def mapFileInfo_def)
      then show ?thesis by simp
    qed
    obtain t where t: "Truncate f1 (new_handle f1 name flg fl) 0 = Return t"
      using Truncate_returns [OF inv] by blast
    show ?thesis using oc Inr t by (simp add: OpenFile_def split: prod.splits)
  qed
qed

lemma OpenFile_handle_ok:
  assumes "OpenFile f name flg prm = Return (Inr h, f')"
  shows "reader_ok (reader h) \<and> fname h = name \<and> fflag h = flg
     \<and> (\<not> IsDir (fperm h) \<longrightarrow> mfile h \<noteq> None)"
proof -
  from assms obtain fl f1 err h2 where
    oc: "open_or_create f name flg prm = (Inr fl, f1)"
    and t: "(if flg AND O_TRUNC \<noteq> 0 then Truncate f1 (new_handle f1 name flg fl) 0
      else Return (None, f1, new_handle f1 name flg fl)) = Return (err, f', h2)"
    and h: "h = (if flg AND O_APPEND \<noteq> 0 then snd (Seek h2 0 SeekEnd) else h2)"
    by (rule OpenFile_Return_Inr)
  let ?h0 = "new_handle f1 name flg fl"
  have op: "Open f1 name = Inr fl" by (rule open_or_create_Inr [OF oc])
  have inv0: "\<not> IsDir (fperm ?h0) \<longrightarrow> mfile ?h0 \<noteq> None"
  proof (cases fl)
    case (openMapFile n a)
    then show ?thesis using Open_file [of f1 name n a] op by (simp add: new_handle_def)
  next
    case (mapDir n p es)
    then have "info_IsDir (file_Stat f1 fl)" using Open_dir [of f1 name n p es] op by auto
    then have "IsDir (fperm ?h0)"
      using mapDir by (cases p) (simp_all add: new_handle_def IsDir_def mapFileInfo_def)
    then show ?thesis by simp
  qed
  have ok0: "reader_ok (reader ?h0)" by (simp add: new_handle_def NewReader_def reader_ok_def)
  have f0: "fname ?h0 = name \<and> fflag ?h0 = flg" by (simp add: new_handle_def)
  have h2: "reader_ok (reader h2) \<and> fname h2 = name \<and> fflag h2 = flg
     \<and> (\<not> IsDir (fperm h2) \<longrightarrow> mfile h2 \<noteq> None)"
  proof (cases "flg AND O_TRUNC \<noteq> 0")
    case True
    then have "Truncate f1 ?h0 0 = Return (err, f', h2)" using t by simp
    from Truncate_fields [OF this] show ?thesis using inv0 ok0 f0 by simp
  next
    case False
    then show ?thesis using t inv0 ok0 f0 by auto
  qed
  show ?thesis
    using h h2 Seek_ok [of h2 0 SeekEnd] Seek_fields [of h2 0 SeekEnd]
    by (cases "flg AND O_APPEND \<noteq> 0") simp_all
qed

lemma write_at_keeps:
  assumes w: "write_at st h pos b = Return (n, st', h')" and m: "mfile h = Some a"
    and cur: "reader_ok (reader h)" and sl: "slice_ok (Data (store st a))"
  shows "mfile h' = mfile h \<and> fperm h' = fperm h \<and> fflag h' = fflag h \<and> fname h' = fname h
     \<and> reader_ok (reader h') \<and> slice_ok (Data (store st' a))"
proof -
  note r = write_at_Return [OF w m]
  let ?d1 = "grow (Data (store st a)) (wrap64 (pos + int (length b)))"
  have p: "nat pos \<le> length ?d1" using r(1,2) by linarith
  have "length (Data (store st' a)) = length ?d1"
    by (simp add: r(4) store_set_Data copy_at_length [OF p])
  then have "slice_ok (Data (store st' a))"
    using grow_length [OF sl, of "pos + int (length b)"] by (simp add: slice_ok_def)
  then show ?thesis
    using reset_fields [OF r(5)] reset_cursor [OF r(5) m cur] cur by (simp add: reader_ok_def)
qed

lemma Write_keeps:
  assumes ok: "Write st h b = Return ((n, None), st', h')" and m: "mfile h = Some a"
    and cur: "reader_ok (reader h)" and sl: "slice_ok (Data (store st a))"
  shows "mfile h' = mfile h \<and> fperm h' = fperm h \<and> fflag h' = fflag h \<and> fname h' = fname h
     \<and> reader_ok (reader h') \<and> slice_ok (Data (store st' a))"
proof -
  obtain h1 where w: "write_at st h (rd_i (reader h)) b = Return (n, st', h1)"
    and h': "h' = h1\<lparr>reader := snd (Reader_Seek (reader h1) (int n) SeekCurrent)\<rparr>"
    using Write_Return [OF ok cur] by blast
  note k = write_at_keeps [OF w m cur sl]
  have "int n < 2 ^ 63"
    using write_at_Return(2,3) [OF w m] grow_length [OF sl, of "rd_i (reader h) + int (length b)"]
    by (simp add: copy_at_count)
  then have "reader_ok (reader h')"
    using k Reader_Seek_ok [of "reader h1" "int n" SeekCurrent] by (simp add: h')
  then show ?thesis using k by (simp add: h')
qed

text \<open>
  The two guards of \<open>Truncate\<close>: without write access it changes nothing and reports
  \<open>EINVAL\<close> (the error \<open>OpenFile\<close> drops for \<^verbatim>\<open>O_TRUNC\<close> on a read-only open), and a
  negative size is a successful call that changes nothing, the reader included.
\<close>

lemma Truncate_read_only:
  "fflag h AND (O_WRONLY OR O_RDWR) = 0 \<Longrightarrow>
     Truncate st h sz = Return (Some (PathError ''truncate'' (fname h) EINVAL), st, h)"
  by (simp add: Truncate_def)

lemma Truncate_negative:
  "\<not> IsDir (fperm h) \<Longrightarrow> fflag h AND (O_WRONLY OR O_RDWR) \<noteq> 0 \<Longrightarrow> sz < 0 \<Longrightarrow>
     Truncate st h sz = Return (None, st, h)"
  by (simp add: Truncate_def)

end
